theory Spec2Isabelle
  imports Main "HOL-Library.AList" "HOL-Library.Char_ord" "HOL-Library.List_Lexorder"
begin

section \<open>Exceptions\<close>

text \<open>
  The exceptions raised by \<^verbatim>\<open>lib/Live.py\<close> and \<^verbatim>\<open>lib/LiveBuilder.py\<close>: the generic
  \<^verbatim>\<open>Exception\<close> with its message, the two subclasses declared in \<^verbatim>\<open>Live.py\<close>, and the
  built-in \<^verbatim>\<open>OSError\<close> (a path without a file) and \<^verbatim>\<open>ValueError\<close> (a value outside an enumeration).
  \<open>ExceptionArgs m log\<close> is \<^verbatim>\<open>Exception(m, log)\<close>, the exception with two arguments that
  \<^verbatim>\<open>_unblock_with_blob0\<close> raises: a message and \<^verbatim>\<open>None\<close> or the integrity log.
  A function that can raise returns \<open>exn + 'a\<close>, with \<open>Inl\<close> for the exception.
\<close>

datatype exn =
    Exception string
  | InvalidCredentialException string
  | DeviceIntegrityException string
  | OSError string
  | ValueError string
  | ExceptionArgs string "(string \<times> string) list option"

section \<open>Crypto primitives\<close>

text \<open>
  The modules \<^verbatim>\<open>CryptoPass\<close> and \<^verbatim>\<open>CryptoGen\<close> are used by \<^verbatim>\<open>Live.py\<close> but are not part of
  the sources at hand, so their functions are parameters of the model:
  \<^item> \<open>harden_password_for_blob0 password salt\<close> is the hardened password;
  \<^item> \<open>strength_error password\<close> is the message with which the constructor
    \<^verbatim>\<open>CryptoPassword(password)\<close> raises when it is called without
    \<^verbatim>\<open>ignore_password_strength=True\<close>, and \<open>None\<close> when it accepts the password;
  \<^item> \<open>encrypt key data\<close> is \<^verbatim>\<open>CryptoPassword(key).encrypt(data)\<close>;
  \<^item> \<open>decrypt key data\<close> is \<^verbatim>\<open>CryptoPassword(key).decrypt(data)\<close>, \<open>None\<close> when it raises, and
    \<open>decrypt_error\<close> is the message of the exception it then raises;
  \<^item> \<open>generate_password\<close> is the value drawn by \<^verbatim>\<open>cgen.generate_password()\<close>.
\<close>

record crypto =
  harden_password_for_blob0 :: "string \<Rightarrow> string \<Rightarrow> string"
  strength_error :: "string \<Rightarrow> string option"
  encrypt :: "string \<Rightarrow> string \<Rightarrow> string"
  decrypt :: "string \<Rightarrow> string \<Rightarrow> string option"
  decrypt_error :: string
  generate_password :: string

text \<open>A \<^verbatim>\<open>CryptoPassword\<close> object is represented by the password it holds.\<close>

definition CryptoPassword :: "crypto \<Rightarrow> string \<Rightarrow> bool \<Rightarrow> exn + string" where
  "CryptoPassword c password ignore_password_strength =
     (if ignore_password_strength then Inr password
      else (case strength_error c password of
              Some m \<Rightarrow> Inl (Exception m)
            | None \<Rightarrow> Inr password))"

section \<open>The credential store \<^verbatim>\<open>blob0.json\<close>\<close>

text \<open>
  One slot of \<^verbatim>\<open>blob0.json\<close>:
  \<^verbatim>\<open>{"mode": "password", "salt": "...", "enc-blob": "...", "cn": "Firstname Lastname"}\<close>.
  The key \<^verbatim>\<open>salt\<close> is optional (the code tests \<^verbatim>\<open>"salt" in entry\<close>). The file is a JSON object
  from user uuids to slots; Python keeps the keys of a dict in insertion order, so the
  object is an association list (with distinct keys, as every dict has).
\<close>

record slot =
  mode :: string
  salt :: "string option"
  enc_blob :: string
  cn :: string

type_synonym users = "(string \<times> slot) list"

text \<open>
  The part of the file system the user management functions touch:
  \<^item> \<open>json_files\<close>: the parsed contents of the JSON files, by path (\<open>None\<close>: no such file);
  \<^item> \<open>dirs\<close>: the directories that exist, by path;
  \<^item> \<open>rmtree_error\<close>: the message with which \<^verbatim>\<open>shutil.rmtree\<close> raises on a path, if it does;
  \<^item> \<open>syslog\<close>: the messages sent to syslog.
\<close>

record store =
  json_files :: "string \<rightharpoonup> users"
  dirs :: "string set"
  rmtree_error :: "string \<Rightarrow> string option"
  syslog :: "string list"

definition blob0_path :: "string \<Rightarrow> string" where
  "blob0_path dummy_mountpoint = dummy_mountpoint @ ''/resources/blob0.json''"

subsection \<open>\<^verbatim>\<open>declare_user\<close>\<close>

text \<open>
  The loop of \<^verbatim>\<open>declare_user\<close> over the slots, in the order of the file: the first slot
  with the given \<^verbatim>\<open>cn\<close> and mode \<^verbatim>\<open>"password"\<close> gets a new \<^verbatim>\<open>enc-blob\<close> and \<^verbatim>\<open>salt\<close>, and the
  loop ends (\<^verbatim>\<open>break\<close>). The result is the updated dict and the flag \<^verbatim>\<open>done\<close>.
\<close>

fun declare_loop ::
  "crypto \<Rightarrow> string \<Rightarrow> string \<Rightarrow> string \<Rightarrow> string \<Rightarrow> users \<Rightarrow> exn + (users \<times> bool)" where
  "declare_loop c name password salt' blob0 [] = Inr ([], False)"
| "declare_loop c name password salt' blob0 ((user_uuid, userdata) # rest) =
     (if cn userdata = name \<and> mode userdata = ''password'' then
        (case CryptoPassword c password False of
           Inl e \<Rightarrow> Inl e
         | Inr eobj \<Rightarrow>
             Inr ((user_uuid, userdata\<lparr>enc_blob := encrypt c eobj blob0, salt := Some salt'\<rparr>) # rest,
                  True))
      else
        (case declare_loop c name password salt' blob0 rest of
           Inl e \<Rightarrow> Inl e
         | Inr (rest', done) \<Rightarrow> Inr ((user_uuid, userdata) # rest', done)))"

text \<open>
  \<^verbatim>\<open>declare_user(dummy_mountpoint, name, user_password, blob0)\<close>. The two random draws of the
  function are arguments: \<open>fresh_salt\<close> is the value of \<^verbatim>\<open>cpass.generate_salt()\<close> and
  \<open>fresh_uuid\<close> the value of \<^verbatim>\<open>str(uuid.uuid4())\<close>. Assigning \<^verbatim>\<open>users[user_uuid]\<close> replaces the
  value of a key the dict has and appends the key otherwise, which is \<^const>\<open>AList.update\<close>.
\<close>

definition declare_user ::
  "crypto \<Rightarrow> string \<Rightarrow> string \<Rightarrow> store \<Rightarrow> string \<Rightarrow> string \<Rightarrow> string \<Rightarrow> string
     \<Rightarrow> (exn + unit) \<times> store" where
  "declare_user c fresh_salt fresh_uuid st dummy_mountpoint name user_password blob0 =
     (let path = blob0_path dummy_mountpoint;
          password = harden_password_for_blob0 c user_password fresh_salt;
          loaded = (case json_files st path of
                      Some users \<Rightarrow> declare_loop c name password fresh_salt blob0 users
                    | None \<Rightarrow> Inr ([], False))
      in case loaded of
           Inl e \<Rightarrow> (Inl e, st)
         | Inr (users, done) \<Rightarrow>
             (if \<not> done then
                (case CryptoPassword c password False of
                   Inl e \<Rightarrow> (Inl e, st)
                 | Inr eobj \<Rightarrow>
                     (Inr (),
                      st\<lparr>json_files := (json_files st)(path \<mapsto>
                           AList.update fresh_uuid
                             \<lparr>mode = ''password'', salt = Some fresh_salt,
                              enc_blob = encrypt c eobj blob0, cn = name\<rparr> users)\<rparr>))
              else (Inr (), st\<lparr>json_files := (json_files st)(path \<mapsto> users)\<rparr>)))"

subsection \<open>\<^verbatim>\<open>delete_user\<close>\<close>

text \<open>
  Removing the configuration directory of a deleted user: only when
  \<^verbatim>\<open>internal_mountpoint\<close> is given (not \<^verbatim>\<open>None\<close> and not empty) and the directory exists; a
  failure of \<^verbatim>\<open>shutil.rmtree\<close> is logged and otherwise ignored.
\<close>

definition remove_config :: "string option \<Rightarrow> string \<Rightarrow> store \<Rightarrow> store" where
  "remove_config internal_mountpoint user_uuid st =
     (case internal_mountpoint of
        None \<Rightarrow> st
      | Some imp \<Rightarrow>
          (if imp = [] then st
           else
             (let cpath = imp @ ''/user-config/'' @ user_uuid in
              if cpath \<in> dirs st then
                (case rmtree_error st cpath of
                   None \<Rightarrow> st\<lparr>dirs := dirs st - {cpath}\<rparr>
                 | Some m \<Rightarrow>
                     st\<lparr>syslog := syslog st @
                          [''Could not remove user config data '' @ [CHR 0x27] @ cpath @
                           [CHR 0x27] @ '': '' @ m]\<rparr>)
              else st)))"

text \<open>
  The loop of \<^verbatim>\<open>delete_user\<close> runs over a snapshot of the keys (\<^verbatim>\<open>list(users.keys())\<close>) and
  deletes from the dict every slot whose \<^verbatim>\<open>cn\<close> is the given name. The snapshot is taken
  with its values: a slot is read before it is deleted and no slot is written.
\<close>

fun delete_loop :: "string \<Rightarrow> string option \<Rightarrow> users \<Rightarrow> users \<times> store \<Rightarrow> users \<times> store" where
  "delete_loop name internal_mountpoint [] (users, st) = (users, st)"
| "delete_loop name internal_mountpoint ((user_uuid, userdata) # rest) (users, st) =
     (if cn userdata = name then
        delete_loop name internal_mountpoint rest
          (AList.delete user_uuid users, remove_config internal_mountpoint user_uuid st)
      else delete_loop name internal_mountpoint rest (users, st))"

definition delete_user ::
  "store \<Rightarrow> string \<Rightarrow> string \<Rightarrow> string option \<Rightarrow> (exn + unit) \<times> store" where
  "delete_user st dummy_mountpoint name internal_mountpoint =
     (let path = blob0_path dummy_mountpoint in
      case json_files st path of
        None \<Rightarrow> (Inl (Exception ''Device has not yet been initialized''), st)
      | Some users \<Rightarrow>
          (if length users = 1 then
             (Inl (Exception ''Can't remove user when there is only one''), st)
           else
             (case delete_loop name internal_mountpoint users (users, st) of
                (users', st') \<Rightarrow>
                  (Inr (), st'\<lparr>json_files := (json_files st')(path \<mapsto> users')\<rparr>))))"

subsection \<open>\<^verbatim>\<open>change_user_password\<close>\<close>

text \<open>
  The attempt on one slot: the hardened password first, with the salt of the slot or, when
  the slot has none, a fixed legacy salt; when anything in that attempt raises, the plain
  password (\<open>eobj0\<close>). The result is \<open>None\<close> when both attempts raise (\<^verbatim>\<open>blob0\<close> stays \<^verbatim>\<open>None\<close>).
\<close>

definition slot_salt :: "slot \<Rightarrow> string" where
  "slot_salt userdata = (case salt userdata of Some s \<Rightarrow> s | None \<Rightarrow> ''not really some salt'')"

definition try_slot :: "crypto \<Rightarrow> string \<Rightarrow> string \<Rightarrow> slot \<Rightarrow> string option" where
  "try_slot c current_password eobj0 userdata =
     (let password = harden_password_for_blob0 c current_password (slot_salt userdata);
          hardened = (case CryptoPassword c password False of
                        Inl e \<Rightarrow> None
                      | Inr eobj \<Rightarrow> decrypt c eobj (enc_blob userdata))
      in case hardened of
           Some blob0 \<Rightarrow> Some blob0
         | None \<Rightarrow> decrypt c eobj0 (enc_blob userdata))"


fun change_loop ::
  "crypto \<Rightarrow> string \<Rightarrow> string \<Rightarrow> store \<Rightarrow> string \<Rightarrow> string \<Rightarrow> string \<Rightarrow> string \<Rightarrow> users
     \<Rightarrow> (exn + unit) \<times> store" where
  "change_loop c fresh_salt fresh_uuid st dummy_mountpoint current_password eobj0 new_password [] =
     (Inl (Exception ''Invalid password''), st)"
| "change_loop c fresh_salt fresh_uuid st dummy_mountpoint current_password eobj0 new_password
     ((user_uuid, userdata) # rest) =
     (case try_slot c current_password eobj0 userdata of
        None \<Rightarrow>
          change_loop c fresh_salt fresh_uuid st dummy_mountpoint current_password eobj0
            new_password rest
      | Some blob0 \<Rightarrow>
          (if blob0 \<noteq> [] then
             declare_user c fresh_salt fresh_uuid st dummy_mountpoint (cn userdata) new_password blob0
           else
             change_loop c fresh_salt fresh_uuid st dummy_mountpoint current_password eobj0
               new_password rest))"

definition change_user_password ::
  "crypto \<Rightarrow> string \<Rightarrow> string \<Rightarrow> store \<Rightarrow> string \<Rightarrow> string \<Rightarrow> string \<Rightarrow> (exn + unit) \<times> store" where
  "change_user_password c fresh_salt fresh_uuid st dummy_mountpoint current_password new_password =
     (if current_password = new_password then (Inr (), st)
      else
        (case CryptoPassword c current_password False of
           Inl e \<Rightarrow> (Inl e, st)
         | Inr eobj0 \<Rightarrow>
             (case json_files st (blob0_path dummy_mountpoint) of
                None \<Rightarrow> (Inl (Exception ''Device has not yet been initialized''), st)
              | Some users \<Rightarrow>
                  change_loop c fresh_salt fresh_uuid st dummy_mountpoint current_password eobj0
                    new_password users)))"

definition reset_user_password ::
  "crypto \<Rightarrow> string \<Rightarrow> string \<Rightarrow> store \<Rightarrow> string \<Rightarrow> string \<Rightarrow> string \<Rightarrow> string
     \<Rightarrow> (exn + unit) \<times> store" where
  "reset_user_password c fresh_salt fresh_uuid st dummy_mountpoint name user_password blob0 =
     declare_user c fresh_salt fresh_uuid st dummy_mountpoint name user_password blob0"

section \<open>Files and the ignore predicates of the directory hash\<close>

text \<open>
  The regular files of the mounted partitions, by absolute path, with their contents.
  \<^verbatim>\<open>os.path.exists\<close> on a path without a file is false; \<^verbatim>\<open>util.load_file_contents\<close> and
  \<^verbatim>\<open>os.path.getsize\<close> raise \<^verbatim>\<open>OSError\<close> on it. A path is \<^verbatim>\<open>"%s/%s"%(root, relative)\<close>.
\<close>

type_synonym files = "string \<rightharpoonup> string"

definition path_join :: "string \<Rightarrow> string \<Rightarrow> string" where
  "path_join root relative = root @ ''/'' @ relative"

definition path_exists :: "files \<Rightarrow> string \<Rightarrow> bool" where
  "path_exists fs p = (fs p \<noteq> None)"

definition load_file_contents :: "files \<Rightarrow> string \<Rightarrow> exn + string" where
  "load_file_contents fs p = (case fs p of None \<Rightarrow> Inl (OSError p) | Some contents \<Rightarrow> Inr contents)"

definition getsize :: "files \<Rightarrow> string \<Rightarrow> exn + nat" where
  "getsize fs p = (case fs p of None \<Rightarrow> Inl (OSError p) | Some contents \<Rightarrow> Inr (length contents))"

text \<open>
  An ignore predicate returns \<^verbatim>\<open>True\<close>, \<^verbatim>\<open>False\<close> or, in \<^verbatim>\<open>_efi_ignore\<close>, the string drawn by
  \<^verbatim>\<open>cgen.generate_password()\<close>.
\<close>

datatype pyval = PyBool bool | PyStr string

definition dummy_ignore :: "files \<Rightarrow> string \<Rightarrow> string \<Rightarrow> exn + pyval" where
  "dummy_ignore fs root relative =
     (if relative = ''resources/internal-pass.enc'' then
        (case getsize fs (path_join root relative) of
           Inl e \<Rightarrow> Inl e
         | Inr n \<Rightarrow> if n < 500 then Inr (PyBool True) else Inr (PyBool False))
      else if relative = ''resources/blob0.json'' then
        (case getsize fs (path_join root relative) of
           Inl e \<Rightarrow> Inl e
         | Inr n \<Rightarrow> if n < 10000 then Inr (PyBool True) else Inr (PyBool False))
      else Inr (PyBool False))"

text \<open>
  \<^verbatim>\<open>_efi_ignore\<close>. The two files the contents are compared with are
  \<^verbatim>\<open>"%s/bootparams0.cfg"%root\<close> and \<^verbatim>\<open>"%s/bootparams1.cfg"%root\<close>. The walk of a directory
  presents each relative path once, so the predicate draws at most one password per walk.
\<close>

definition efi_ignore :: "crypto \<Rightarrow> files \<Rightarrow> string \<Rightarrow> string \<Rightarrow> exn + pyval" where
  "efi_ignore c fs root relative =
     (if relative = ''boot/grub/bootparams.cfg'' then
        (case load_file_contents fs (path_join root relative) of
           Inl e \<Rightarrow> Inl e
         | Inr contents \<Rightarrow>
             (let f0 = root @ ''/bootparams0.cfg''; f1 = root @ ''/bootparams1.cfg'' in
              if \<not> path_exists fs f0 \<or> \<not> path_exists fs f1 then Inr (PyStr (generate_password c))
              else
                (case load_file_contents fs f0 of
                   Inl e \<Rightarrow> Inl e
                 | Inr c0 \<Rightarrow>
                     (case load_file_contents fs f1 of
                        Inl e \<Rightarrow> Inl e
                      | Inr c1 \<Rightarrow>
                          if contents \<noteq> c0 \<and> contents \<noteq> c1
                          then Inr (PyStr (generate_password c))
                          else Inr (PyBool True)))))
      else Inr (PyBool False))"

section \<open>The device\<close>

definition partid_dummy :: string where "partid_dummy = ''dummy''"
definition partid_efi :: string where "partid_efi = ''EFI''"
definition partid_live :: string where "partid_live = ''live''"
definition partid_internal :: string where "partid_internal = ''internal''"
definition partid_data :: string where "partid_data = ''data''"

text \<open>
  The class \<^verbatim>\<open>Device.Device\<close> is not part of the sources at hand. A device is given by what
  its methods answer, and it records the calls that changed it:
  \<^item> \<open>mountpoint\<close>: where \<^verbatim>\<open>mount(partid)\<close> mounts a partition when no mount point is given;
  \<^item> \<open>mount_error\<close>, \<open>secret_error\<close>: the message with which \<^verbatim>\<open>mount\<close> or
    \<^verbatim>\<open>set_partition_secret\<close> raises on a partition, if it does;
  \<^item> \<open>verify_error\<close>: the message with which \<^verbatim>\<open>verify\<close> raises, if it does;
  \<^item> \<open>inter_partitions_hash\<close>: the result of \<^verbatim>\<open>compute_inter_partitions_hash()\<close>, a hash and
    a log;
  \<^item> \<open>partitions_layout_type\<close>: \<^verbatim>\<open>get_partitions_layout()["type"]\<close>;
  \<^item> \<open>partition_filesystem\<close>: the result of \<^verbatim>\<open>get_partition_filesystem(partid)\<close>;
  \<^item> \<open>calls\<close>: the successful calls of \<^verbatim>\<open>mount\<close>, \<^verbatim>\<open>umount\<close>, \<^verbatim>\<open>verify\<close> and
    \<^verbatim>\<open>set_partition_secret\<close>, oldest first.
\<close>

datatype dev_call = Mount string | Umount string | Verify | SetSecret string string

datatype FSType = fat | exfat | other_fs

type_synonym integrity_log = "(string \<times> string) list"

record device =
  devfile :: string
  mountpoint :: "string \<Rightarrow> string"
  mount_error :: "string \<Rightarrow> string option"
  secret_error :: "string \<Rightarrow> string option"
  verify_error :: "string option"
  inter_partitions_hash :: "exn + (string \<times> integrity_log)"
  partitions_layout_type :: "exn + string"
  partition_filesystem :: "string \<Rightarrow> exn + FSType"
  calls :: "dev_call list"

definition mount :: "device \<Rightarrow> string \<Rightarrow> string option \<Rightarrow> (exn + string) \<times> device" where
  "mount dev partid mp =
     (case mount_error dev partid of
        Some m \<Rightarrow> (Inl (Exception m), dev)
      | None \<Rightarrow>
          (Inr (case mp of None \<Rightarrow> mountpoint dev partid | Some p \<Rightarrow> p),
           dev\<lparr>calls := calls dev @ [Mount partid]\<rparr>))"

definition umount :: "device \<Rightarrow> string \<Rightarrow> device" where
  "umount dev partid = dev\<lparr>calls := calls dev @ [Umount partid]\<rparr>"

definition verify :: "device \<Rightarrow> (exn + unit) \<times> device" where
  "verify dev =
     (case verify_error dev of
        Some m \<Rightarrow> (Inl (Exception m), dev)
      | None \<Rightarrow> (Inr (), dev\<lparr>calls := calls dev @ [Verify]\<rparr>))"

definition set_partition_secret :: "device \<Rightarrow> string \<Rightarrow> string \<Rightarrow> (exn + unit) \<times> device" where
  "set_partition_secret dev partid secret =
     (case secret_error dev partid of
        Some m \<Rightarrow> (Inl (Exception m), dev)
      | None \<Rightarrow> (Inr (), dev\<lparr>calls := calls dev @ [SetSecret partid secret]\<rparr>))"

text \<open>
  Modelled from the spec: the partitions that are mounted after a sequence of calls, where
  \<^verbatim>\<open>mount\<close> mounts a partition (once, however often it is called) and \<^verbatim>\<open>umount\<close> releases it.
\<close>

fun mounted_after :: "string set \<Rightarrow> dev_call list \<Rightarrow> string set" where
  "mounted_after M [] = M"
| "mounted_after M (Mount p # cs) = mounted_after (insert p M) cs"
| "mounted_after M (Umount p # cs) = mounted_after (M - {p}) cs"
| "mounted_after M (Verify # cs) = mounted_after M cs"
| "mounted_after M (SetSecret p s # cs) = mounted_after M cs"

text \<open>The partitions a sequence of calls has mounted at some point.\<close>

fun mounts_of :: "dev_call list \<Rightarrow> string list" where
  "mounts_of [] = []"
| "mounts_of (Mount p # cs) = p # mounts_of cs"
| "mounts_of (Umount p # cs) = mounts_of cs"
| "mounts_of (Verify # cs) = mounts_of cs"
| "mounts_of (SetSecret p s # cs) = mounts_of cs"

section \<open>The integrity fingerprint\<close>

text \<open>
  The modules \<^verbatim>\<open>FingerprintHash\<close> and \<^verbatim>\<open>Utils\<close> are not part of the sources at hand; the
  functions \<^verbatim>\<open>compute_integrity_fingerprint\<close> calls are parameters:
  \<^item> \<open>chain_integity_hash prev next\<close> (the name is the source's);
  \<^item> \<open>LabelType v\<close>: the enumeration value of a layout type, \<open>None\<close> when there is none;
  \<^item> \<open>compute_partitions_table_hash devfile ftype\<close>;
  \<^item> \<open>compute_directory_hash fs root ignore\<close>: the hash of the files below \<open>root\<close>, given the
    ignore predicate (called with \<open>root\<close> and a relative path).
\<close>

record fphash =
  chain_integity_hash :: "string \<Rightarrow> string \<Rightarrow> string"
  LabelType :: "string \<Rightarrow> string option"
  compute_partitions_table_hash :: "string \<Rightarrow> string \<Rightarrow> exn + string"
  compute_directory_hash :: "files \<Rightarrow> string \<Rightarrow> (string \<Rightarrow> string \<Rightarrow> exn + pyval) \<Rightarrow> exn + string"

text \<open>
  \<^verbatim>\<open>compute_integrity_fingerprint(dev, blob1_priv, live_hash)\<close>. The two \<^verbatim>\<open>isinstance\<close> checks
  hold by the types. Each log entry \<^verbatim>\<open>{key: hash[:5]}\<close> is the pair of the key and
  \<open>take 5 hash\<close>. The SHA-256 object the source builds from \<^verbatim>\<open>blob1_priv\<close> is never read.
\<close>

definition compute_integrity_fingerprint ::
  "crypto \<Rightarrow> fphash \<Rightarrow> files \<Rightarrow> device \<Rightarrow> string \<Rightarrow> string
     \<Rightarrow> (exn + (string \<times> integrity_log)) \<times> device" where
  "compute_integrity_fingerprint c h fs dev blob1_priv live_hash =
     (case inter_partitions_hash dev of
        Inl e \<Rightarrow> (Inl e, dev)
      | Inr (interhash, log0) \<Rightarrow>
     (let hash1 = chain_integity_hash h interhash blob1_priv;
          log1 = log0 @ [(''blob1'', take 5 hash1)]
      in case partitions_layout_type dev of
        Inl e \<Rightarrow> (Inl e, dev)
      | Inr layout_type \<Rightarrow>
     (case LabelType h layout_type of
        None \<Rightarrow> (Inl (ValueError layout_type), dev)
      | Some ftype \<Rightarrow>
     (case compute_partitions_table_hash h (devfile dev) ftype of
        Inl e \<Rightarrow> (Inl e, dev)
      | Inr newhash2 \<Rightarrow>
     (let hash2 = chain_integity_hash h hash1 newhash2;
          log2 = log1 @ [(''mbr'', take 5 hash2)]
      in case mount dev partid_dummy None of
        (Inl e, dev1) \<Rightarrow> (Inl e, dev1)
      | (Inr dummy_mp, dev1) \<Rightarrow>
     (case compute_directory_hash h fs dummy_mp (dummy_ignore fs) of
        Inl e \<Rightarrow> (Inl e, dev1)
      | Inr newhash3 \<Rightarrow>
     (let hash3 = chain_integity_hash h hash2 newhash3;
          log3 = log2 @ [(''dummy'', take 5 hash3)]
      in case mount dev1 partid_efi None of
        (Inl e, dev2) \<Rightarrow> (Inl e, dev2)
      | (Inr efi_mp, dev2) \<Rightarrow>
     (case compute_directory_hash h fs efi_mp (efi_ignore c fs) of
        Inl e \<Rightarrow> (Inl e, dev2)
      | Inr newhash4 \<Rightarrow>
     (let hash4 = chain_integity_hash h hash3 newhash4;
          log4 = log3 @ [(''efi-data'', take 5 hash4)];
          hash5 = chain_integity_hash h hash4 live_hash;
          log5 = log4 @ [(''live'', take 5 hash5)]
      in (Inr (hash5, log5), dev2))))))))))"

section \<open>Unlocking the device\<close>

text \<open>
  The collaborators of \<^verbatim>\<open>BootProcessWKS\<close> that are not part of the sources at hand, as
  parameters:
  \<^item> \<open>json_loads_users\<close>: \<^verbatim>\<open>json.loads\<close> on the text of \<^verbatim>\<open>blob0.json\<close>, \<open>None\<close> when it raises;
  \<^item> \<open>x509_decrypt key data\<close>: \<^verbatim>\<open>x509.CryptoKey(key, None).decrypt(data)\<close>, \<open>None\<close> when the
    constructor or the decryption raises;
  \<^item> \<open>json_loads_chunks\<close>: \<^verbatim>\<open>json.loads\<close> on the decrypted chunk list;
  \<^item> \<open>verify_files_chunks fs root chunks\<close>: the hash and the log of
    \<^verbatim>\<open>fpchunks.verify_files_chunks\<close>;
  \<^item> \<open>py_str e\<close>: Python's \<^verbatim>\<open>str(e)\<close> for an exception whose text is not its single argument:
    the text of the tuple of arguments of a two-argument \<^verbatim>\<open>Exception\<close>, and the texts of
    \<^verbatim>\<open>OSError\<close> and \<^verbatim>\<open>ValueError\<close>;
  \<^item> \<open>write_run_error\<close>, \<open>change_comment_error\<close>, \<open>makedirs_error\<close>, \<open>chpasswd_error\<close>,
    \<open>post_start_error\<close>: the message with which writing \<^verbatim>\<open>/run/INSECA/user_uuid\<close>,
    \<^verbatim>\<open>util.change_user_comment\<close>, \<^verbatim>\<open>os.makedirs("/data")\<close>, \<^verbatim>\<open>chpasswd\<close> and the steps after
    the unlock fail, if they do.
\<close>

record collab =
  json_loads_users :: "string \<Rightarrow> users option"
  x509_decrypt :: "string \<Rightarrow> string \<Rightarrow> string option"
  json_loads_chunks :: "string \<Rightarrow> string option"
  verify_files_chunks :: "files \<Rightarrow> string \<Rightarrow> string \<Rightarrow> exn + (string \<times> string)"
  py_str :: "exn \<Rightarrow> string"
  write_run_error :: "string option"
  change_comment_error :: "string option"
  makedirs_error :: "string option"
  chpasswd_error :: "string option"
  post_start_error :: "string option"

text \<open>
  The state an unlock works on: the device, the files, the flag \<^verbatim>\<open>live_env.unlocked\<close>, the
  attributes \<^verbatim>\<open>_user_uuid\<close> and \<^verbatim>\<open>_cn\<close> of the boot process, and the messages sent to syslog.
\<close>

record world =
  dev :: device
  disk :: files
  unlocked :: bool
  user_uuid :: "string option"
  user_cn :: "string option"
  journal :: "string list"

text \<open>
  \<^verbatim>\<open>str(e)\<close>: the argument of an exception built from one message, and the text Python
  gives for the others.
\<close>

fun str_exn :: "(exn \<Rightarrow> string) \<Rightarrow> exn \<Rightarrow> string" where
  "str_exn pystr (Exception m) = m"
| "str_exn pystr (InvalidCredentialException m) = m"
| "str_exn pystr (DeviceIntegrityException m) = m"
| "str_exn pystr (OSError p) = pystr (OSError p)"
| "str_exn pystr (ValueError v) = pystr (ValueError v)"
| "str_exn pystr (ExceptionArgs m log) = pystr (ExceptionArgs m log)"

subsection \<open>\<^verbatim>\<open>_unlock_blob0\<close>\<close>

text \<open>
  The loop of \<^verbatim>\<open>_unlock_blob0\<close> over the slots. The two decryption attempts on a slot are
  those of \<^const>\<open>try_slot\<close> (blob0 is text, so \<^verbatim>\<open>decode()\<close> does not fail). Everything after the
  decryption is inside the same \<^verbatim>\<open>try\<close>: when recording the user fails, the exception is
  dropped and the loop goes on with the next slot. The result is \<open>None\<close> when the loop ends
  without returning.
\<close>

fun unlock_loop ::
  "crypto \<Rightarrow> collab \<Rightarrow> string \<Rightarrow> string \<Rightarrow> users \<Rightarrow> world \<Rightarrow> string option \<times> world" where
  "unlock_loop c k user_password eobj0 [] w = (None, w)"
| "unlock_loop c k user_password eobj0 ((slot, entry) # rest) w =
     (case try_slot c user_password eobj0 entry of
        None \<Rightarrow> unlock_loop c k user_password eobj0 rest w
      | Some blob0 \<Rightarrow>
          (let w1 = w\<lparr>user_uuid := Some slot\<rparr> in
           case write_run_error k of
             Some m \<Rightarrow> unlock_loop c k user_password eobj0 rest w1
           | None \<Rightarrow>
               (let w2 = w1\<lparr>disk := (disk w1)(''/run/INSECA/user_uuid'' \<mapsto> slot),
                             user_cn := Some (cn entry)\<rparr> in
                case change_comment_error k of
                  Some m \<Rightarrow> unlock_loop c k user_password eobj0 rest w2
                | None \<Rightarrow> (Some blob0, w2))))"

definition unlock_blob0 :: "crypto \<Rightarrow> collab \<Rightarrow> world \<Rightarrow> string \<Rightarrow> (exn + string) \<times> world" where
  "unlock_blob0 c k w user_password =
     (case CryptoPassword c user_password True of
        Inl e \<Rightarrow> (Inl e, w)
      | Inr eobj0 \<Rightarrow>
     (case mount (dev w) partid_dummy None of
        (Inl e, d) \<Rightarrow> (Inl e, w\<lparr>dev := d\<rparr>)
      | (Inr mp, d) \<Rightarrow>
     (let w1 = w\<lparr>dev := d\<rparr> in
      case load_file_contents (disk w1) (blob0_path mp) of
        Inl e \<Rightarrow> (Inl e, w1)
      | Inr text \<Rightarrow>
     (case json_loads_users k text of
        None \<Rightarrow> (Inl (ValueError text), w1)
      | Some blobs \<Rightarrow>
     (case unlock_loop c k user_password eobj0 blobs w1 of
        (Some blob0, w2) \<Rightarrow> (Inr blob0, w2)
      | (None, w2) \<Rightarrow>
          (Inl (InvalidCredentialException ''Invalid password''),
           w2\<lparr>dev := umount (dev w2) partid_dummy\<rparr>))))))"

subsection \<open>\<^verbatim>\<open>_unblock_with_blob0\<close>\<close>

text \<open>
  Each of the six \<^verbatim>\<open>try\<close> blocks of \<^verbatim>\<open>_unblock_with_blob0\<close> turns any exception into an
  \<^verbatim>\<open>Exception\<close> with two arguments: a message of its own and, as the second, \<^verbatim>\<open>None\<close> in the
  first four blocks and the integrity log (with the entry of the live partition) in the
  last two.
  The result is the key object built from the fingerprint and the password of the
  \<^verbatim>\<open>internal\<close> partition.
\<close>

definition unblock_with_blob0 ::
  "crypto \<Rightarrow> fphash \<Rightarrow> collab \<Rightarrow> world \<Rightarrow> string \<Rightarrow> string
     \<Rightarrow> (exn + (string \<times> string)) \<times> world" where
  "unblock_with_blob0 c h k w dummy_mountpoint blob0 =
     (case (case CryptoPassword c blob0 False of
              Inl e \<Rightarrow> None
            | Inr eobj \<Rightarrow>
                (case load_file_contents (disk w) (dummy_mountpoint @ ''/resources/blob1.priv.enc'') of
                   Inl e \<Rightarrow> None
                 | Inr encdata \<Rightarrow> decrypt c eobj encdata)) of
        None \<Rightarrow>
          (Inl (ExceptionArgs ''Could not load 'blob1.priv.enc' or decrypt blob1 from blob0'' None), w)
      | Some blob1 \<Rightarrow>
     (case (case load_file_contents (disk w) (dummy_mountpoint @ ''/resources/chunks.enc'') of
              Inl e \<Rightarrow> None
            | Inr echunks \<Rightarrow>
                (case x509_decrypt k blob1 echunks of
                   None \<Rightarrow> None
                 | Some text \<Rightarrow> json_loads_chunks k text)) of
        None \<Rightarrow>
          (Inl (ExceptionArgs ''Could not load 'chunks.enc' or decrypt chuks from blob1'' None), w)
      | Some chunks \<Rightarrow>
     (case mount (dev w) partid_live None of
        (Inl e, d) \<Rightarrow>
          (Inl (ExceptionArgs
             (''Could not verify files in the live partition ('' @ str_exn (py_str k) e @ '')'') None),
           w\<lparr>dev := d\<rparr>)
      | (Inr lmp, d) \<Rightarrow>
     (let w1 = w\<lparr>dev := d\<rparr> in
      case verify_files_chunks k (disk w1) lmp chunks of
        Inl e \<Rightarrow>
          (Inl (ExceptionArgs
             (''Could not verify files in the live partition ('' @ str_exn (py_str k) e @ '')'') None),
           w1)
      | Inr (hash0, log0) \<Rightarrow>
     (case compute_integrity_fingerprint c h (disk w1) (dev w1) blob1 hash0 of
        (Inl e, d2) \<Rightarrow>
          (Inl (ExceptionArgs
             (''Could not compute the integrity fingerprint ('' @ str_exn (py_str k) e @ '')'') None),
           w1\<lparr>dev := d2\<rparr>)
      | (Inr (ifp, log), d2) \<Rightarrow>
     (let w2 = w1\<lparr>dev := d2\<rparr>;
          log' = log @ [(''live'', log0)]
      in case (case CryptoPassword c ifp False of
                 Inl e \<Rightarrow> Inl e
               | Inr eobj \<Rightarrow>
                   (case load_file_contents (disk w2)
                           (dummy_mountpoint @ ''/resources/internal-pass.enc'') of
                      Inl e \<Rightarrow> Inl e
                    | Inr data \<Rightarrow> Inr (eobj, data))) of
        Inl e \<Rightarrow>
          (Inl (ExceptionArgs
             (''Could not load the 'internal-pass.enc' file: '' @ str_exn (py_str k) e) (Some log')),
           w2)
      | Inr (eobj, data) \<Rightarrow>
     (case decrypt c eobj data of
        None \<Rightarrow>
          (Inl (ExceptionArgs
             ''Could not decrypt the 'internal-pass.enc' file from the integrity hash''
             (Some log')),
           w2)
      | Some int_password \<Rightarrow> (Inr (eobj, int_password), w2))))))))"

subsection \<open>\<^verbatim>\<open>unlock\<close>\<close>

text \<open>
  The body of the \<^verbatim>\<open>try\<close> block of \<^verbatim>\<open>unlock\<close>: the integrity chain, then the \<^verbatim>\<open>internal\<close>
  partition, then the \<^verbatim>\<open>data\<close> partition. The result is the pair of the two partition
  passwords.
\<close>

definition open_partitions ::
  "crypto \<Rightarrow> fphash \<Rightarrow> collab \<Rightarrow> world \<Rightarrow> string \<Rightarrow> string
     \<Rightarrow> (exn + (string \<times> string)) \<times> world" where
  "open_partitions c h k w dmp blob0 =
     (case unblock_with_blob0 c h k w dmp blob0 of
        (Inl e, w1) \<Rightarrow> (Inl e, w1)
      | (Inr (eobj, int_password), w1) \<Rightarrow>
     (case set_partition_secret (dev w1) partid_internal int_password of
        (Inl e, d) \<Rightarrow> (Inl e, w1\<lparr>dev := d\<rparr>)
      | (Inr u, d) \<Rightarrow>
     (case mount d partid_internal (Some ''/internal'') of
        (Inl e, d2) \<Rightarrow> (Inl e, w1\<lparr>dev := d2\<rparr>)
      | (Inr imp, d2) \<Rightarrow>
     (let w2 = w1\<lparr>dev := d2\<rparr> in
      case load_file_contents (disk w2) ''/internal/credentials/data-pass.enc'' of
        Inl e \<Rightarrow> (Inl e, w2)
      | Inr data \<Rightarrow>
     (case decrypt c eobj data of
        None \<Rightarrow> (Inl (Exception (decrypt_error c)), w2)
      | Some data_password \<Rightarrow>
     (case set_partition_secret (dev w2) ''data'' data_password of
        (Inl e, d3) \<Rightarrow> (Inl e, w2\<lparr>dev := d3\<rparr>)
      | (Inr u, d3) \<Rightarrow>
     (case makedirs_error k of
        Some m \<Rightarrow> (Inl (OSError m), w2\<lparr>dev := d3\<rparr>)
      | None \<Rightarrow>
     (case partition_filesystem d3 ''data'' of
        Inl e \<Rightarrow> (Inl e, w2\<lparr>dev := d3\<rparr>)
      | Inr fstype \<Rightarrow>
     (case mount d3 partid_data (Some ''/data'') of
        (Inl e, d4) \<Rightarrow> (Inl e, w2\<lparr>dev := d4\<rparr>)
      | (Inr dmp', d4) \<Rightarrow> (Inr (int_password, data_password), w2\<lparr>dev := d4\<rparr>))))))))))"

text \<open>
  \<^verbatim>\<open>unlock(user_password)\<close>. An exception of the \<^verbatim>\<open>try\<close> block is logged to syslog and replaced
  by \<^verbatim>\<open>DeviceIntegrityException("Device may be compromised")\<close>; the \<^verbatim>\<open>finally\<close> clause unmounts
  \<^verbatim>\<open>dummy\<close> on both ways out of the block. After the block, \<^verbatim>\<open>findmnt\<close> finds \<^verbatim>\<open>/internal\<close>, which
  has just been mounted, so the environment is unlocked. The mount options of the
  \<^verbatim>\<open>internal\<close> and \<^verbatim>\<open>data\<close> partitions do not change what is recorded of a mount.
\<close>

definition unlock ::
  "crypto \<Rightarrow> fphash \<Rightarrow> collab \<Rightarrow> world \<Rightarrow> string
     \<Rightarrow> (exn + (string \<times> string \<times> string)) \<times> world" where
  "unlock c h k w user_password =
     (if unlocked w then (Inl (Exception ''Device already unlocked''), w)
      else
     (case mount (dev w) partid_dummy None of
        (Inl e, d) \<Rightarrow> (Inl e, w\<lparr>dev := d\<rparr>)
      | (Inr dmp, d) \<Rightarrow>
     (case verify d of
        (Inl e, d1) \<Rightarrow> (Inl e, w\<lparr>dev := umount d1 partid_dummy\<rparr>)
      | (Inr u, d1) \<Rightarrow>
     (case unlock_blob0 c k (w\<lparr>dev := d1\<rparr>) user_password of
        (Inl e, w1) \<Rightarrow> (Inl e, w1)
      | (Inr blob0, w1) \<Rightarrow>
     (case open_partitions c h k w1 dmp blob0 of
        (Inl e, w2) \<Rightarrow>
          (Inl (DeviceIntegrityException ''Device may be compromised''),
           w2\<lparr>journal := journal w2 @ [''While unlocking device: '' @ str_exn (py_str k) e],
              dev := umount (dev w2) partid_dummy\<rparr>)
      | (Inr (int_password, data_password), w2) \<Rightarrow>
     (let w3 = w2\<lparr>dev := umount (dev w2) partid_dummy, unlocked := True\<rparr> in
      case chpasswd_error k of
        Some err \<Rightarrow>
          (Inl (Exception (''Could not change logged user's password: '' @ err)), w3)
      | None \<Rightarrow>
     (case post_start_error k of
        Some m \<Rightarrow>
          (Inl (Exception m), w3\<lparr>journal := journal w3 @ [''post-start failed: '' @ m]\<rparr>)
      | None \<Rightarrow> (Inr (blob0, int_password, data_password), w3))))))))"

section \<open>Sealing the private data of the components\<close>

text \<open>
  The metadata of a file that \<^verbatim>\<open>tarfile.add\<close> reads from the file system and records in the
  header of its member: the modification time, the mode, and the owner's user and group
  ids.
\<close>

record fstat =
  st_mtime :: nat
  st_mode :: nat
  st_uid :: nat
  st_gid :: nat

text \<open>
  A file tree below \<^verbatim>\<open><fs>/privdata\<close>: a file with its metadata and contents, or a directory
  with its metadata and entries. The entries of a directory are listed in the order in
  which \<^verbatim>\<open>tarfile.add\<close> visits them. A member of a tar archive is a name, the metadata and,
  for a file, the contents.
\<close>

datatype node = File fstat string | Dir fstat "(string \<times> node) list"

type_synonym member = "string \<times> fstat \<times> string option"

text \<open>
  \<^verbatim>\<open>tar.add(path, arcname=arcname)\<close>: the member for the path itself, then, for a directory,
  the members of its entries below \<^verbatim>\<open>arcname/\<close>.
\<close>

fun tar_add :: "string \<Rightarrow> node \<Rightarrow> member list"
  and tar_add_entries :: "string \<Rightarrow> (string \<times> node) list \<Rightarrow> member list" where
  "tar_add arcname (File st contents) = [(arcname, st, Some contents)]"
| "tar_add arcname (Dir st entries) = (arcname, st, None) # tar_add_entries arcname entries"
| "tar_add_entries arcname [] = []"
| "tar_add_entries arcname ((f, n) # rest) =
     tar_add (arcname @ ''/'' @ f) n @ tar_add_entries arcname rest"

text \<open>
  The loop of \<^verbatim>\<open>_encrypt_privdata\<close> that fills \<^verbatim>\<open>privdata.tar\<close>: one \<^verbatim>\<open>tar.add\<close> per entry of
  \<^verbatim>\<open>resources\<close>, the result of \<^verbatim>\<open>os.listdir(res_dir)\<close>, in the order of that list.
\<close>

fun privdata_archive :: "(string \<times> node) list \<Rightarrow> member list" where
  "privdata_archive [] = []"
| "privdata_archive ((entry, n) # resources) = tar_add entry n @ privdata_archive resources"

text \<open>
  What two builds from the same component inputs share: the names and the contents of
  the files, not their metadata. \<open>forget\<close> is a tree without its metadata, and
  \<open>member_content\<close> a member without its metadata.
\<close>

definition no_stat :: fstat where
  "no_stat = \<lparr>st_mtime = 0, st_mode = 0, st_uid = 0, st_gid = 0\<rparr>"

fun forget :: "node \<Rightarrow> node"
  and forget_entries :: "(string \<times> node) list \<Rightarrow> (string \<times> node) list" where
  "forget (File st contents) = File no_stat contents"
| "forget (Dir st entries) = Dir no_stat (forget_entries entries)"
| "forget_entries [] = []"
| "forget_entries ((f, n) # rest) = (f, forget n) # forget_entries rest"

fun member_content :: "member \<Rightarrow> string \<times> string option" where
  "member_content (name, st, body) = (name, body)"

text \<open>The members at the top of an archive: those whose name has no \<open>/\<close>.\<close>

fun top_level :: "member \<Rightarrow> bool" where
  "top_level (name, st, body) = (CHR ''/'' \<notin> set name)"

fun inputs_of :: "(string \<times> node) list \<Rightarrow> (string \<times> node) set" where
  "inputs_of [] = {}"
| "inputs_of ((entry, n) # resources) = insert (entry, forget n) (inputs_of resources)"

text \<open>
  The files of the build directory that \<^verbatim>\<open>_encrypt_privdata\<close> reads and writes:
  \<^verbatim>\<open><fs>/privdata\<close> (\<open>None\<close> when the directory does not exist, else its entries in the order
  \<^verbatim>\<open>os.listdir\<close> returns them), \<^verbatim>\<open><fs>/privdata.tar\<close> and \<^verbatim>\<open><fs>/privdata.tar.enc\<close>.
\<close>

record build_fs =
  privdata_dir :: "(string \<times> node) list option"
  privdata_tar :: "member list option"
  privdata_tar_enc :: "string option"

text \<open>
  \<^verbatim>\<open>Builder._encrypt_privdata\<close>. The encryption of \<^verbatim>\<open>CryptoX509\<close> is the parameter
  \<open>x509_encrypt\<close>; \<open>privdata_pubkey\<close> and \<open>dry_mode\<close> are the attributes of the builder.
\<close>

definition encrypt_privdata ::
  "(string \<Rightarrow> member list \<Rightarrow> string) \<Rightarrow> string option \<Rightarrow> bool \<Rightarrow> build_fs
     \<Rightarrow> (exn + unit) \<times> build_fs" where
  "encrypt_privdata x509_encrypt privdata_pubkey dry_mode b =
     (case privdata_dir b of
        None \<Rightarrow> (Inr (), b)
      | Some resources \<Rightarrow>
          (if length resources = 0 then (Inr (), b)
           else
             (case privdata_pubkey of
                None \<Rightarrow>
                  (Inl (Exception
                     ''Some components specified some PRIVDATA, but no encryption public key has been provided''),
                   b)
              | Some pubkey \<Rightarrow>
                  (let b1 = b\<lparr>privdata_tar := Some (privdata_archive resources)\<rparr>;
                       b2 = b1\<lparr>privdata_tar_enc :=
                              Some (x509_encrypt pubkey (privdata_archive resources))\<rparr>
                   in if \<not> dry_mode
                      then (Inr (), b2\<lparr>privdata_tar := None, privdata_dir := None\<rparr>)
                      else (Inr (), b2)))))"

section \<open>Concrete instances\<close>

subsection \<open>Crypto and credential stores\<close>

text \<open>
  A toy instance of the crypto parameters, to run the model: the hardened password is the
  password followed by \<open>#\<close> and the salt, a ciphertext is the key followed by \<open>:\<close> and the
  plaintext, and decryption raises unless the ciphertext starts with the key. Every
  password is accepted by the constructor.
\<close>

definition toy_crypto :: crypto where
  "toy_crypto =
     \<lparr>harden_password_for_blob0 = (\<lambda>password salt'. password @ ''#'' @ salt'),
      strength_error = (\<lambda>password. None),
      encrypt = (\<lambda>key data. key @ '':'' @ data),
      decrypt = (\<lambda>key data.
         if take (length key + 1) data = key @ '':'' then Some (drop (length key + 1) data)
         else None),
      decrypt_error = ''Could not decrypt data'',
      generate_password = ''0Zk3xQ''\<rparr>"

definition empty_store :: store where
  "empty_store = \<lparr>json_files = Map.empty, dirs = {}, rmtree_error = (\<lambda>p. None), syslog = []\<rparr>"

definition slot_of :: "string \<Rightarrow> string \<Rightarrow> string \<Rightarrow> string \<Rightarrow> slot" where
  "slot_of name user_password salt' blob0 =
     \<lparr>mode = ''password'', salt = Some salt',
      enc_blob = encrypt toy_crypto (harden_password_for_blob0 toy_crypto user_password salt') blob0,
      cn = name\<rparr>"

definition two_bobs :: store where
  "two_bobs = empty_store\<lparr>json_files :=
     [''/mnt/resources/blob0.json'' \<mapsto>
        [(''uuid-1'', slot_of ''Bob'' ''pw1'' ''s1'' ''B0''),
         (''uuid-2'', slot_of ''Bob'' ''pw2'' ''s2'' ''B0'')]]\<rparr>"

definition one_alice :: store where
  "one_alice = empty_store\<lparr>json_files :=
     [''/mnt/resources/blob0.json'' \<mapsto> [(''uuid-1'', slot_of ''Alice'' ''pw1'' ''s1'' ''B0'')]]\<rparr>"


subsection \<open>A device\<close>

text \<open>
  A toy instance of the hashing parameters: chaining puts the next value in front of the
  previous hash, and the directory hash lists the contents of the files it does not
  ignore, or the string the predicate returned, over a fixed list of relative paths.
\<close>

fun toy_walk ::
  "files \<Rightarrow> string \<Rightarrow> (string \<Rightarrow> string \<Rightarrow> exn + pyval) \<Rightarrow> string list \<Rightarrow> exn + string" where
  "toy_walk fs root ignore [] = Inr []"
| "toy_walk fs root ignore (rel # rels) =
     (case fs (path_join root rel) of
        None \<Rightarrow> toy_walk fs root ignore rels
      | Some contents \<Rightarrow>
          (case ignore root rel of
             Inl e \<Rightarrow> Inl e
           | Inr v \<Rightarrow>
               (case toy_walk fs root ignore rels of
                  Inl e \<Rightarrow> Inl e
                | Inr rest \<Rightarrow>
                    Inr ((case v of
                            PyBool b \<Rightarrow> if b then [] else contents @ '';''
                          | PyStr s \<Rightarrow> s @ '';'') @ rest))))"

definition toy_fphash :: fphash where
  "toy_fphash =
     \<lparr>chain_integity_hash = (\<lambda>prev next. next @ ''/'' @ prev),
      LabelType = (\<lambda>v. if v = ''gpt'' \<or> v = ''dos'' then Some v else None),
      compute_partitions_table_hash = (\<lambda>devfile ftype. Inr (ftype @ '':'' @ devfile)),
      compute_directory_hash = (\<lambda>fs root ignore.
         toy_walk fs root ignore
           [''bootparams0.cfg'', ''bootparams1.cfg'', ''boot/grub/bootparams.cfg'',
            ''resources/blob0.json'', ''resources/blob1.priv.enc'', ''resources/chunks.enc'',
            ''resources/internal-pass.enc'', ''resources/meta-sign.pub''])\<rparr>"

definition toy_device :: device where
  "toy_device =
     \<lparr>devfile = ''sdb'',
      mountpoint = (\<lambda>partid. ''/m/'' @ partid),
      mount_error = (\<lambda>partid. None),
      secret_error = (\<lambda>partid. None),
      verify_error = None,
      inter_partitions_hash = Inr (''1f3a9c'', [(''gaps'', ''1f3a9'')]),
      partitions_layout_type = Inr ''gpt'',
      partition_filesystem = (\<lambda>partid. Inr other_fs),
      calls = []\<rparr>"

text \<open>
  The text of a string inside the text of a tuple or list, for strings without double
  quotes, backslashes or control characters, and the text of an integrity log.
\<close>

definition toy_repr :: "string \<Rightarrow> string" where
  "toy_repr s =
     (if CHR 0x27 \<in> set s \<and> CHR 0x22 \<notin> set s then [CHR 0x22] @ s @ [CHR 0x22]
      else [CHR 0x27] @ s @ [CHR 0x27])"

fun toy_log_text :: "integrity_log \<Rightarrow> string" where
  "toy_log_text [] = []"
| "toy_log_text [(key, v)] = ''{'' @ toy_repr key @ '': '' @ toy_repr v @ ''}''"
| "toy_log_text ((key, v) # rest) =
     ''{'' @ toy_repr key @ '': '' @ toy_repr v @ ''}, '' @ toy_log_text rest"

definition toy_collab :: collab where
  "toy_collab =
     \<lparr>json_loads_users = (\<lambda>text.
         if text = ''{alice}'' then Some [(''uuid-1'', slot_of ''Alice'' ''pw1'' ''s1'' ''B0'')]
         else None),
      x509_decrypt = decrypt toy_crypto,
      json_loads_chunks = Some,
      verify_files_chunks = (\<lambda>fs root chunks.
         case fs (path_join root ''vmlinuz'') of
           None \<Rightarrow> Inl (OSError (path_join root ''vmlinuz''))
         | Some contents \<Rightarrow>
             if contents = chunks then Inr (rev contents, ''vmlinuz: ok'')
             else Inl (Exception ''vmlinuz: chunk mismatch'')),
      py_str = (\<lambda>e. case e of
           OSError p \<Rightarrow> ''[Errno 2] No such file or directory: '' @ toy_repr p
         | ValueError v \<Rightarrow> v
         | ExceptionArgs m log \<Rightarrow>
             ''('' @ toy_repr m @ '', '' @
             (case log of None \<Rightarrow> ''None'' | Some l \<Rightarrow> ''['' @ toy_log_text l @ '']'') @ '')''
         | _ \<Rightarrow> []),
      write_run_error = None,
      change_comment_error = None,
      makedirs_error = None,
      chpasswd_error = None,
      post_start_error = None\<rparr>"

text \<open>The integrity fingerprint of the toy device, and the files sealed with it.\<close>

definition toy_ifp :: string where
  "toy_ifp = ''lenrek/quiet;debug;/B0:KEY1;KEY1:kernel;PUB;/gpt:sdb/KEY1/1f3a9c''"

definition toy_disk :: files where
  "toy_disk =
     [''/m/dummy/resources/blob0.json'' \<mapsto> ''{alice}'',
      ''/m/dummy/resources/blob1.priv.enc'' \<mapsto> ''B0:KEY1'',
      ''/m/dummy/resources/chunks.enc'' \<mapsto> ''KEY1:kernel'',
      ''/m/dummy/resources/internal-pass.enc'' \<mapsto> toy_ifp @ '':ipw'',
      ''/m/dummy/resources/meta-sign.pub'' \<mapsto> ''PUB'',
      ''/m/EFI/boot/grub/bootparams.cfg'' \<mapsto> ''quiet'',
      ''/m/EFI/bootparams0.cfg'' \<mapsto> ''quiet'',
      ''/m/EFI/bootparams1.cfg'' \<mapsto> ''debug'',
      ''/m/live/vmlinuz'' \<mapsto> ''kernel'',
      ''/internal/credentials/data-pass.enc'' \<mapsto> toy_ifp @ '':dpw'']"

definition toy_world :: world where
  "toy_world =
     \<lparr>dev = toy_device, disk = toy_disk, unlocked = False, user_uuid = None, user_cn = None,
      journal = []\<rparr>"

text \<open>The same device, except that mounting the \<^verbatim>\<open>internal\<close> partition fails.\<close>

definition toy_world_mount_failure :: world where
  "toy_world_mount_failure =
     toy_world\<lparr>dev := toy_device\<lparr>mount_error :=
       (\<lambda>partid. if partid = ''internal'' then Some ''mount: wrong fs type'' else None)\<rparr>\<rparr>"

subsection \<open>Listings of one directory\<close>

text \<open>
  The same two entries listed in two orders, and listed again in the first order after a
  later build has written the files anew.
\<close>

definition stat_at :: "nat \<Rightarrow> fstat" where
  "stat_at t = \<lparr>st_mtime = t, st_mode = 420, st_uid = 0, st_gid = 0\<rparr>"

definition privdata_ab :: "(string \<times> node) list" where
  "privdata_ab =
     [(''alpha'', Dir (stat_at 100) [(''key.pem'', File (stat_at 100) ''K1'')]),
      (''beta'', File (stat_at 100) ''K2'')]"

definition privdata_ba :: "(string \<times> node) list" where
  "privdata_ba =
     [(''beta'', File (stat_at 100) ''K2''),
      (''alpha'', Dir (stat_at 100) [(''key.pem'', File (stat_at 100) ''K1'')])]"

definition privdata_ab_later :: "(string \<times> node) list" where
  "privdata_ab_later =
     [(''alpha'', Dir (stat_at 200) [(''key.pem'', File (stat_at 200) ''K1'')]),
      (''beta'', File (stat_at 200) ''K2'')]"

definition toy_seal :: "string \<Rightarrow> member list \<Rightarrow> string" where
  "toy_seal pubkey data = pubkey @ '':'' @ concat (map fst data)"

definition toy_build :: "(string \<times> node) list \<Rightarrow> build_fs" where
  "toy_build resources =
     \<lparr>privdata_dir = Some resources, privdata_tar = None, privdata_tar_enc = None\<rparr>"

subsection \<open>More credential stores and devices\<close>

text \<open>A store whose only slot holds the name \<open>Bob\<close> in another mode than \<^verbatim>\<open>"password"\<close>.\<close>

definition bob_with_key :: store where
  "bob_with_key = empty_store\<lparr>json_files :=
     [''/mnt/resources/blob0.json'' \<mapsto>
        [(''uuid-5'', \<lparr>mode = ''key'', salt = None, enc_blob = ''K5'', cn = ''Bob''\<rparr>)]]\<rparr>"

text \<open>The toy device with another kernel in the live partition than the chunk list describes.\<close>

definition toy_world_tampered :: world where
  "toy_world_tampered = toy_world\<lparr>disk := toy_disk(''/m/live/vmlinuz'' \<mapsto> ''rootkit'')\<rparr>"

section \<open>Properties of the credential store\<close>

text \<open>
  Claim C10. Whenever \<^verbatim>\<open>blob0.json\<close> holds exactly one slot, \<^verbatim>\<open>delete_user\<close> raises, whatever the
  name: the number of slots is checked before any name is compared. The store is left as
  it was.
\<close>

theorem delete_user_only_slot_raises:
  assumes "json_files st (blob0_path dummy_mountpoint) = Some users" and "length users = 1"
  shows "delete_user st dummy_mountpoint name internal_mountpoint =
           (Inl (Exception ''Can't remove user when there is only one''), st)"
  using assms by (simp add: delete_user_def)

theorem delete_user_only_slot_raises_witness:
  "json_files one_alice (blob0_path ''/mnt'') = Some [(''uuid-1'', slot_of ''Alice'' ''pw1'' ''s1'' ''B0'')]
   \<and> length [(''uuid-1'', slot_of ''Alice'' ''pw1'' ''s1'' ''B0'')] = 1
   \<and> delete_user one_alice ''/mnt'' ''Alice'' None =
         (Inl (Exception ''Can't remove user when there is only one''), one_alice)
   \<and> delete_user one_alice ''/mnt'' ''Nobody'' None =
         (Inl (Exception ''Can't remove user when there is only one''), one_alice)"
proof -
  have f: "json_files one_alice (blob0_path ''/mnt'') =
        Some [(''uuid-1'', slot_of ''Alice'' ''pw1'' ''s1'' ''B0'')]"
    by (simp add: one_alice_def empty_store_def blob0_path_def)
  have l: "length [(''uuid-1'', slot_of ''Alice'' ''pw1'' ''s1'' ''B0'')] = 1" by simp
  show ?thesis
    using f l delete_user_only_slot_raises [OF f l, of "''Alice''" None]
      delete_user_only_slot_raises [OF f l, of "''Nobody''" None]
    by simp
qed

text \<open>
  Claim C1. The claim is that \<^verbatim>\<open>delete_user\<close> raises whenever removing the slots of the given
  name would leave no slot. The guard of the function only looks for a store of exactly
  one slot: on a store of two slots that both carry the name \<open>Bob\<close>, deleting \<open>Bob\<close> returns
  normally and writes the empty object to \<^verbatim>\<open>blob0.json\<close>.
\<close>

theorem delete_user_empties_store_of_namesakes:
  "fst (delete_user two_bobs ''/mnt'' ''Bob'' None) = Inr ()
   \<and> json_files (snd (delete_user two_bobs ''/mnt'' ''Bob'' None)) (blob0_path ''/mnt'') = Some []"
  by (simp add: delete_user_def two_bobs_def empty_store_def blob0_path_def slot_of_def
      remove_config_def)

text \<open>
  Claim C9. With the current password equal to the new one, \<^verbatim>\<open>change_user_password\<close> returns
  at once: for every store (also one without \<^verbatim>\<open>blob0.json\<close>, where a read would raise), every
  mount point and every password, valid or not, the call succeeds and the store is
  unchanged.
\<close>

theorem change_user_password_same_password:
  "change_user_password c fresh_salt fresh_uuid st dummy_mountpoint p p = (Inr (), st)"
  by (simp add: change_user_password_def)

subsection \<open>Declaring a user\<close>

lemma alist_update_fresh:
  "k \<notin> fst ` set xs \<Longrightarrow> AList.update k v xs = xs @ [(k, v)]"
  by (induction xs) auto

lemma alist_update_member: "(k, v) \<in> set (AList.update k v xs)"
  by (induction xs) auto

lemma alist_update_shape:
  "map fst (AList.update k v xs) = (if k \<in> fst ` set xs then map fst xs else map fst xs @ [k])"
  by (induction xs) auto

lemma declare_loop_overwrite:
  assumes "CryptoPassword c password False = Inr eobj"
    and "list_all (\<lambda>(u', d'). \<not> (cn d' = name \<and> mode d' = ''password'')) pre"
    and "cn d = name" and "mode d = ''password''"
  shows "declare_loop c name password s blob0 (pre @ (u, d) # post) =
           Inr (pre @ (u, d\<lparr>enc_blob := encrypt c eobj blob0, salt := Some s\<rparr>) # post, True)"
  using assms by (induction pre) auto

lemma declare_loop_none:
  "list_all (\<lambda>(u', d'). \<not> (cn d' = name \<and> mode d' = ''password'')) users \<Longrightarrow>
   declare_loop c name password s blob0 users = Inr (users, False)"
  by (induction users) auto

lemma first_match_split:
  "\<not> list_all (\<lambda>(u', d'). \<not> (cn d' = name \<and> mode d' = ''password'')) users \<Longrightarrow>
   \<exists>pre u d post. users = pre @ (u, d) # post
      \<and> list_all (\<lambda>(u', d'). \<not> (cn d' = name \<and> mode d' = ''password'')) pre
      \<and> cn d = name \<and> mode d = ''password''"
proof (induction users)
  case Nil
  then show ?case by simp
next
  case (Cons a users)
  obtain u d where a: "a = (u, d)" by (cases a)
  show ?case
  proof (cases "cn d = name \<and> mode d = ''password''")
    case True
    then have "a # users = [] @ (u, d) # users
      \<and> list_all (\<lambda>(u', d'). \<not> (cn d' = name \<and> mode d' = ''password'')) []
      \<and> cn d = name \<and> mode d = ''password''" using a by simp
    then show ?thesis by blast
  next
    case False
    with Cons.prems a
    have "\<not> list_all (\<lambda>(u', d'). \<not> (cn d' = name \<and> mode d' = ''password'')) users" by auto
    from Cons.IH [OF this] obtain pre u' d' post where
      h: "users = pre @ (u', d') # post"
         "list_all (\<lambda>(u', d'). \<not> (cn d' = name \<and> mode d' = ''password'')) pre"
         "cn d' = name" "mode d' = ''password''" by blast
    have "a # users = (a # pre) @ (u', d') # post
      \<and> list_all (\<lambda>(u', d'). \<not> (cn d' = name \<and> mode d' = ''password'')) (a # pre)
      \<and> cn d' = name \<and> mode d' = ''password''" using h a False by simp
    then show ?thesis by blast
  qed
qed


lemma declare_user_overwrite:
  assumes "CryptoPassword c (harden_password_for_blob0 c pw s) False = Inr eobj"
    and "json_files st (blob0_path mp) = Some (pre @ (u, d) # post)"
    and "list_all (\<lambda>(u', d'). \<not> (cn d' = name \<and> mode d' = ''password'')) pre"
    and "cn d = name" and "mode d = ''password''"
  shows "declare_user c s fresh_uuid st mp name pw blob0 =
           (Inr (), st\<lparr>json_files := (json_files st)(blob0_path mp \<mapsto>
              pre @ (u, d\<lparr>enc_blob := encrypt c eobj blob0, salt := Some s\<rparr>) # post)\<rparr>)"
  using assms(2) declare_loop_overwrite [OF assms(1) assms(3) assms(4) assms(5)]
  by (simp add: declare_user_def)

lemma declare_user_append:
  assumes "CryptoPassword c (harden_password_for_blob0 c pw s) False = Inr eobj"
    and "json_files st (blob0_path mp) = Some users"
    and "list_all (\<lambda>(u', d'). \<not> (cn d' = name \<and> mode d' = ''password'')) users"
  shows "declare_user c s fresh_uuid st mp name pw blob0 =
           (Inr (), st\<lparr>json_files := (json_files st)(blob0_path mp \<mapsto>
              AList.update fresh_uuid
                \<lparr>mode = ''password'', salt = Some s, enc_blob = encrypt c eobj blob0, cn = name\<rparr>
                users)\<rparr>)"
  using assms(1,2) declare_loop_none [OF assms(3)]
  by (simp add: declare_user_def)

lemma declare_user_create:
  assumes "CryptoPassword c (harden_password_for_blob0 c pw s) False = Inr eobj"
    and "json_files st (blob0_path mp) = None"
  shows "declare_user c s fresh_uuid st mp name pw blob0 =
           (Inr (), st\<lparr>json_files := (json_files st)(blob0_path mp \<mapsto>
              [(fresh_uuid,
                \<lparr>mode = ''password'', salt = Some s, enc_blob = encrypt c eobj blob0, cn = name\<rparr>)])\<rparr>)"
  using assms by (simp add: declare_user_def)

text \<open>After a declaration the store holds a password slot of the declared name.\<close>

lemma declare_user_declared:
  assumes ok: "CryptoPassword c (harden_password_for_blob0 c pw s) False = Inr eobj"
  shows "\<exists>users1. declare_user c s fresh_uuid st mp name pw blob0 =
            (Inr (), st\<lparr>json_files := (json_files st)(blob0_path mp \<mapsto> users1)\<rparr>)
          \<and> \<not> list_all (\<lambda>(u', d'). \<not> (cn d' = name \<and> mode d' = ''password'')) users1"
proof (cases "json_files st (blob0_path mp)")
  case None
  show ?thesis
    by (rule exI [of _ "[(fresh_uuid,
          \<lparr>mode = ''password'', salt = Some s, enc_blob = encrypt c eobj blob0, cn = name\<rparr>)]"])
       (simp add: declare_user_create [OF ok None])
next
  case (Some users)
  show ?thesis
  proof (cases "list_all (\<lambda>(u', d'). \<not> (cn d' = name \<and> mode d' = ''password'')) users")
    case True
    have "(fresh_uuid, \<lparr>mode = ''password'', salt = Some s, enc_blob = encrypt c eobj blob0, cn = name\<rparr>)
            \<in> set (AList.update fresh_uuid
                \<lparr>mode = ''password'', salt = Some s, enc_blob = encrypt c eobj blob0, cn = name\<rparr> users)"
      by (rule alist_update_member)
    then have "\<not> list_all (\<lambda>(u', d'). \<not> (cn d' = name \<and> mode d' = ''password''))
            (AList.update fresh_uuid
                \<lparr>mode = ''password'', salt = Some s, enc_blob = encrypt c eobj blob0, cn = name\<rparr> users)"
      unfolding list_all_iff by force
    then show ?thesis
      by (intro exI [of _ "AList.update fresh_uuid
                \<lparr>mode = ''password'', salt = Some s, enc_blob = encrypt c eobj blob0, cn = name\<rparr> users"])
         (simp add: declare_user_append [OF ok Some True])
  next
    case False
    from first_match_split [OF False] obtain pre u d post where
      h: "users = pre @ (u, d) # post"
         "list_all (\<lambda>(u', d'). \<not> (cn d' = name \<and> mode d' = ''password'')) pre"
         "cn d = name" "mode d = ''password''" by blast
    have "\<not> list_all (\<lambda>(u', d'). \<not> (cn d' = name \<and> mode d' = ''password''))
            (pre @ (u, d\<lparr>enc_blob := encrypt c eobj blob0, salt := Some s\<rparr>) # post)"
      using h(3,4) by simp
    then show ?thesis
      by (intro exI [of _ "pre @ (u, d\<lparr>enc_blob := encrypt c eobj blob0, salt := Some s\<rparr>) # post"])
         (simp add: declare_user_overwrite [OF ok Some [unfolded h(1)] h(2) h(3) h(4)])
  qed
qed

text \<open>A declaration on a store that holds a password slot of the name keeps every uuid and cn.\<close>

lemma declare_user_again:
  assumes ok: "CryptoPassword c (harden_password_for_blob0 c pw s) False = Inr eobj"
    and f: "json_files st (blob0_path mp) = Some users1"
    and m: "\<not> list_all (\<lambda>(u', d'). \<not> (cn d' = name \<and> mode d' = ''password'')) users1"
  shows "\<exists>users2. declare_user c s fresh_uuid st mp name pw blob0 =
            (Inr (), st\<lparr>json_files := (json_files st)(blob0_path mp \<mapsto> users2)\<rparr>)
          \<and> map (\<lambda>(u, d). (u, cn d)) users2 = map (\<lambda>(u, d). (u, cn d)) users1"
proof -
  from first_match_split [OF m] obtain pre u d post where
    h: "users1 = pre @ (u, d) # post"
       "list_all (\<lambda>(u', d'). \<not> (cn d' = name \<and> mode d' = ''password'')) pre"
       "cn d = name" "mode d = ''password''" by blast
  show ?thesis
    by (intro exI [of _ "pre @ (u, d\<lparr>enc_blob := encrypt c eobj blob0, salt := Some s\<rparr>) # post"])
       (simp add: declare_user_overwrite [OF ok f [unfolded h(1)] h(2) h(3) h(4)] h(1))
qed


lemma alist_update_only:
  assumes "list_all (\<lambda>(u, d). cn d \<noteq> name) xs"
  shows "\<exists>pre post. AList.update k v xs = pre @ (k, v) # post
           \<and> list_all (\<lambda>(u, d). cn d \<noteq> name) pre
           \<and> list_all (\<lambda>(u, d). cn d \<noteq> name) post"
  using assms
proof (induction xs)
  case Nil
  have "AList.update k v [] = [] @ (k, v) # []
      \<and> list_all (\<lambda>(u, d). cn d \<noteq> name) [] \<and> list_all (\<lambda>(u, d). cn d \<noteq> name) []"
    by simp
  then show ?case by blast
next
  case (Cons a xs)
  show ?case
  proof (cases "fst a = k")
    case True
    then have "AList.update k v (a # xs) = [] @ (k, v) # xs
      \<and> list_all (\<lambda>(u, d). cn d \<noteq> name) [] \<and> list_all (\<lambda>(u, d). cn d \<noteq> name) xs"
      using Cons.prems by simp
    then show ?thesis by blast
  next
    case False
    from Cons obtain pre post where
      h: "AList.update k v xs = pre @ (k, v) # post"
         "list_all (\<lambda>(u, d). cn d \<noteq> name) pre" "list_all (\<lambda>(u, d). cn d \<noteq> name) post"
      by auto
    have "AList.update k v (a # xs) = (a # pre) @ (k, v) # post
      \<and> list_all (\<lambda>(u, d). cn d \<noteq> name) (a # pre) \<and> list_all (\<lambda>(u, d). cn d \<noteq> name) post"
      using False h Cons.prems by simp
    then show ?thesis by blast
  qed
qed

text \<open>
  Claim C7 ends with: declaring the same \<^verbatim>\<open>cn\<close> twice leaves exactly one slot for that \<^verbatim>\<open>cn\<close>.
  On the store with two slots of the name \<open>Bob\<close>, two declarations of \<open>Bob\<close> overwrite the
  first slot twice and leave both; on the store that holds \<open>Bob\<close> in the mode \<open>key\<close>, the first
  declaration adds a password slot and the second overwrites it, which leaves two slots of
  the name as well.
\<close>

theorem declare_user_twice_two_slots:
  "json_files (snd (declare_user toy_crypto ''s3'' ''uuid-3''
       (snd (declare_user toy_crypto ''s2'' ''uuid-2'' two_bobs ''/mnt'' ''Bob'' ''pw2'' ''B0''))
       ''/mnt'' ''Bob'' ''pw3'' ''B0'')) (blob0_path ''/mnt'') =
     Some [(''uuid-1'', slot_of ''Bob'' ''pw3'' ''s3'' ''B0''),
           (''uuid-2'', slot_of ''Bob'' ''pw2'' ''s2'' ''B0'')]
   \<and> json_files (snd (declare_user toy_crypto ''s3'' ''uuid-3''
       (snd (declare_user toy_crypto ''s2'' ''uuid-2'' bob_with_key ''/mnt'' ''Bob'' ''pw2'' ''B0''))
       ''/mnt'' ''Bob'' ''pw3'' ''B0'')) (blob0_path ''/mnt'') =
     Some [(''uuid-5'', \<lparr>mode = ''key'', salt = None, enc_blob = ''K5'', cn = ''Bob''\<rparr>),
           (''uuid-2'', slot_of ''Bob'' ''pw3'' ''s3'' ''B0'')]"
  by (simp add: declare_user_def two_bobs_def bob_with_key_def empty_store_def blob0_path_def
      slot_of_def toy_crypto_def CryptoPassword_def)

text \<open>
  Claim C7, as the code has it. \<^verbatim>\<open>declare_user\<close>, when the hardened password is accepted by
  the constructor:
  \<^item> on a store whose first slot with the given \<^verbatim>\<open>cn\<close> and mode \<^verbatim>\<open>"password"\<close> is \<open>(u, d)\<close>, writes
    the store back with that slot's \<^verbatim>\<open>enc-blob\<close> and \<^verbatim>\<open>salt\<close> replaced (blob0 encrypted under
    the password hardened with the fresh salt), the uuid \<open>u\<close>, the \<^verbatim>\<open>cn\<close> and every other slot
    as they were;
  \<^item> on a store with no such slot, stores a slot of mode \<^verbatim>\<open>"password"\<close> under the drawn uuid,
    which appends it when that uuid is not a key of the store, and on a missing
    \<^verbatim>\<open>blob0.json\<close> creates the file with that one slot;
  \<^item> declared twice for the same \<^verbatim>\<open>cn\<close>, succeeds twice and the second declaration adds no
    slot and keeps the uuid and the \<^verbatim>\<open>cn\<close> of every slot; when the store held no slot of that
    \<^verbatim>\<open>cn\<close> before the first declaration, it then holds exactly one, under the uuid drawn by
    the first declaration.
\<close>

theorem declare_user_overwrites_or_appends:
  fixes c :: crypto and st :: store and name mp s1 u1 pw1 b1 s2 u2 pw2 b2 :: string
  defines "fresh \<equiv> \<lambda>salt' eobj blob0.
      \<lparr>mode = ''password'', salt = Some salt', enc_blob = encrypt c eobj blob0, cn = name\<rparr>"
    and "r1 \<equiv> declare_user c s1 u1 st mp name pw1 b1"
  defines "r2 \<equiv> declare_user c s2 u2 (snd r1) mp name pw2 b2"
  assumes ok1: "CryptoPassword c (harden_password_for_blob0 c pw1 s1) False = Inr e1"
    and ok2: "CryptoPassword c (harden_password_for_blob0 c pw2 s2) False = Inr e2"
  shows
    "(\<forall>pre u d post.
        json_files st (blob0_path mp) = Some (pre @ (u, d) # post)
        \<and> list_all (\<lambda>(u', d'). \<not> (cn d' = name \<and> mode d' = ''password'')) pre
        \<and> cn d = name \<and> mode d = ''password'' \<longrightarrow>
        r1 = (Inr (), st\<lparr>json_files := (json_files st)(blob0_path mp \<mapsto>
                pre @ (u, d\<lparr>enc_blob := encrypt c e1 b1, salt := Some s1\<rparr>) # post)\<rparr>))
     \<and> (\<forall>users.
        json_files st (blob0_path mp) = Some users
        \<and> list_all (\<lambda>(u', d'). \<not> (cn d' = name \<and> mode d' = ''password'')) users \<longrightarrow>
        r1 = (Inr (), st\<lparr>json_files := (json_files st)(blob0_path mp \<mapsto>
                AList.update u1 (fresh s1 e1 b1) users)\<rparr>)
        \<and> (u1 \<notin> fst ` set users \<longrightarrow>
             AList.update u1 (fresh s1 e1 b1) users = users @ [(u1, fresh s1 e1 b1)]))
     \<and> (json_files st (blob0_path mp) = None \<longrightarrow>
        r1 = (Inr (), st\<lparr>json_files := (json_files st)(blob0_path mp \<mapsto>
                [(u1, fresh s1 e1 b1)])\<rparr>))
     \<and> (\<exists>users1 users2.
          fst r1 = Inr () \<and> fst r2 = Inr ()
          \<and> json_files (snd r1) (blob0_path mp) = Some users1
          \<and> json_files (snd r2) (blob0_path mp) = Some users2
          \<and> map (\<lambda>(u, d). (u, cn d)) users2 = map (\<lambda>(u, d). (u, cn d)) users1
          \<and> ((case json_files st (blob0_path mp) of
                 None \<Rightarrow> True
               | Some users \<Rightarrow> list_all (\<lambda>(u, d). cn d \<noteq> name) users) \<longrightarrow>
              filter (\<lambda>(u, d). cn d = name) users2 = [(u1, fresh s2 e2 b2)]))"
proof (intro conjI allI impI)
  fix pre u d post
  assume "json_files st (blob0_path mp) = Some (pre @ (u, d) # post)
        \<and> list_all (\<lambda>(u', d'). \<not> (cn d' = name \<and> mode d' = ''password'')) pre
        \<and> cn d = name \<and> mode d = ''password''"
  then show "r1 = (Inr (), st\<lparr>json_files := (json_files st)(blob0_path mp \<mapsto>
                pre @ (u, d\<lparr>enc_blob := encrypt c e1 b1, salt := Some s1\<rparr>) # post)\<rparr>)"
    unfolding r1_def using declare_user_overwrite [OF ok1] by blast
next
  fix users
  assume h: "json_files st (blob0_path mp) = Some users
        \<and> list_all (\<lambda>(u', d'). \<not> (cn d' = name \<and> mode d' = ''password'')) users"
  then show "r1 = (Inr (), st\<lparr>json_files := (json_files st)(blob0_path mp \<mapsto>
                AList.update u1 (fresh s1 e1 b1) users)\<rparr>)"
    unfolding r1_def using declare_user_append [OF ok1, of st mp users name u1 b1]
    by (simp add: fresh_def)
next
  fix users :: users
  assume "u1 \<notin> fst ` set users"
  then show "AList.update u1 (fresh s1 e1 b1) users = users @ [(u1, fresh s1 e1 b1)]"
    by (simp add: alist_update_fresh)
next
  assume "json_files st (blob0_path mp) = None"
  then show "r1 = (Inr (), st\<lparr>json_files := (json_files st)(blob0_path mp \<mapsto>
                [(u1, fresh s1 e1 b1)])\<rparr>)"
    unfolding r1_def using declare_user_create [OF ok1] by (simp add: fresh_def)
next
  from declare_user_declared [OF ok1, of u1 st mp name b1] obtain users1 where
    r1: "r1 = (Inr (), st\<lparr>json_files := (json_files st)(blob0_path mp \<mapsto> users1)\<rparr>)"
    and m1: "\<not> list_all (\<lambda>(u', d'). \<not> (cn d' = name \<and> mode d' = ''password'')) users1"
    unfolding r1_def by blast
  have f1: "json_files (snd r1) (blob0_path mp) = Some users1" by (simp add: r1)
  from declare_user_again [OF ok2 f1 m1, of u2 b2] obtain users2 where
    r2: "r2 = (Inr (), (snd r1)\<lparr>json_files := (json_files (snd r1))(blob0_path mp \<mapsto> users2)\<rparr>)"
    and keep: "map (\<lambda>(u, d). (u, cn d)) users2 = map (\<lambda>(u, d). (u, cn d)) users1"
    unfolding r2_def by blast
  have f2: "json_files (snd r2) (blob0_path mp) = Some users2" by (simp add: r2)
  have one: "filter (\<lambda>(u, d). cn d = name) users2 = [(u1, fresh s2 e2 b2)]"
    if new: "case json_files st (blob0_path mp) of
                 None \<Rightarrow> True
               | Some users \<Rightarrow> list_all (\<lambda>(u, d). cn d \<noteq> name) users"
  proof -
    define users0 where "users0 = (case json_files st (blob0_path mp) of None \<Rightarrow> [] | Some us \<Rightarrow> us)"
    have other: "list_all (\<lambda>(u, d). cn d \<noteq> name) users0"
      using new by (simp add: users0_def split: option.splits)
    then have nomatch: "list_all (\<lambda>(u', d'). \<not> (cn d' = name \<and> mode d' = ''password'')) users0"
      unfolding list_all_iff by auto
    have "r1 = (Inr (), st\<lparr>json_files := (json_files st)(blob0_path mp \<mapsto>
                AList.update u1 (fresh s1 e1 b1) users0)\<rparr>)"
    proof (cases "json_files st (blob0_path mp)")
      case None
      then show ?thesis
        unfolding r1_def using declare_user_create [OF ok1] by (simp add: fresh_def users0_def)
    next
      case (Some users)
      then have u0: "users0 = users" by (simp add: users0_def)
      show ?thesis
        unfolding r1_def
        using declare_user_append [OF ok1 Some nomatch [unfolded u0], of u1 b1] u0
        by (simp add: fresh_def)
    qed
    moreover from alist_update_only [OF other, of u1 "fresh s1 e1 b1"] obtain pre post where
      split: "AList.update u1 (fresh s1 e1 b1) users0 = pre @ (u1, fresh s1 e1 b1) # post"
      and pre: "list_all (\<lambda>(u, d). cn d \<noteq> name) pre"
      and post: "list_all (\<lambda>(u, d). cn d \<noteq> name) post"
      by blast
    ultimately have f1': "json_files (snd r1) (blob0_path mp) =
        Some (pre @ (u1, fresh s1 e1 b1) # post)"
      by simp
    have nomatch_pre: "list_all (\<lambda>(u', d'). \<not> (cn d' = name \<and> mode d' = ''password'')) pre"
      using pre unfolding list_all_iff by auto
    have "r2 = (Inr (), (snd r1)\<lparr>json_files := (json_files (snd r1))(blob0_path mp \<mapsto>
             pre @ (u1, (fresh s1 e1 b1)\<lparr>enc_blob := encrypt c e2 b2, salt := Some s2\<rparr>) # post)\<rparr>)"
      unfolding r2_def
      by (rule declare_user_overwrite [OF ok2 f1' nomatch_pre]) (simp_all add: fresh_def)
    then have "users2 = pre @ (u1, fresh s2 e2 b2) # post"
      using f2 by (simp add: fresh_def)
    moreover have "filter (\<lambda>(u, d). cn d = name) pre = []"
      "filter (\<lambda>(u, d). cn d = name) post = []"
      using pre post unfolding list_all_iff by (auto simp: filter_empty_conv)
    ultimately show ?thesis by (simp add: fresh_def)
  qed
  show "\<exists>users1 users2.
          fst r1 = Inr () \<and> fst r2 = Inr ()
          \<and> json_files (snd r1) (blob0_path mp) = Some users1
          \<and> json_files (snd r2) (blob0_path mp) = Some users2
          \<and> map (\<lambda>(u, d). (u, cn d)) users2 = map (\<lambda>(u, d). (u, cn d)) users1
          \<and> ((case json_files st (blob0_path mp) of
                 None \<Rightarrow> True
               | Some users \<Rightarrow> list_all (\<lambda>(u, d). cn d \<noteq> name) users) \<longrightarrow>
              filter (\<lambda>(u, d). cn d = name) users2 = [(u1, fresh s2 e2 b2)])"
    using r1 r2 f1 f2 keep one by (intro exI [of _ users1] exI [of _ users2]) simp
qed

theorem declare_user_overwrites_or_appends_witness:
  "CryptoPassword toy_crypto (harden_password_for_blob0 toy_crypto ''new'' ''s9'') False = Inr ''new#s9''
   \<and> CryptoPassword toy_crypto (harden_password_for_blob0 toy_crypto ''pw2'' ''s2'') False = Inr ''pw2#s2''
   \<and> CryptoPassword toy_crypto (harden_password_for_blob0 toy_crypto ''pw3'' ''s3'') False = Inr ''pw3#s3''
   \<and> declare_user toy_crypto ''s9'' ''uuid-9'' one_alice ''/mnt'' ''Alice'' ''new'' ''B0'' =
       (Inr (), one_alice\<lparr>json_files := (json_files one_alice)(blob0_path ''/mnt'' \<mapsto>
          [(''uuid-1'', slot_of ''Alice'' ''new'' ''s9'' ''B0'')])\<rparr>)
   \<and> declare_user toy_crypto ''s2'' ''uuid-2'' one_alice ''/mnt'' ''Bob'' ''pw2'' ''B0'' =
       (Inr (), one_alice\<lparr>json_files := (json_files one_alice)(blob0_path ''/mnt'' \<mapsto>
          [(''uuid-1'', slot_of ''Alice'' ''pw1'' ''s1'' ''B0''),
           (''uuid-2'', slot_of ''Bob'' ''pw2'' ''s2'' ''B0'')])\<rparr>)
   \<and> declare_user toy_crypto ''s2'' ''uuid-2'' empty_store ''/mnt'' ''Bob'' ''pw2'' ''B0'' =
       (Inr (), empty_store\<lparr>json_files := (json_files empty_store)(blob0_path ''/mnt'' \<mapsto>
          [(''uuid-2'', slot_of ''Bob'' ''pw2'' ''s2'' ''B0'')])\<rparr>)
   \<and> (\<exists>users2.
        json_files (snd (declare_user toy_crypto ''s3'' ''uuid-3''
            (snd (declare_user toy_crypto ''s2'' ''uuid-2'' one_alice ''/mnt'' ''Bob'' ''pw2'' ''B0''))
            ''/mnt'' ''Bob'' ''pw3'' ''B0'')) (blob0_path ''/mnt'') = Some users2
        \<and> filter (\<lambda>(u, d). cn d = ''Bob'') users2 = [(''uuid-2'', slot_of ''Bob'' ''pw3'' ''s3'' ''B0'')])"
proof -
  have ok: "CryptoPassword toy_crypto (harden_password_for_blob0 toy_crypto pw s) False = Inr (pw @ ''#'' @ s)"
    for pw s by (simp add: CryptoPassword_def toy_crypto_def)
  have alice: "json_files one_alice (blob0_path ''/mnt'') =
      Some ([] @ (''uuid-1'', slot_of ''Alice'' ''pw1'' ''s1'' ''B0'') # [])"
    by (simp add: one_alice_def empty_store_def blob0_path_def)
  have none: "json_files empty_store (blob0_path ''/mnt'') = None"
    by (simp add: empty_store_def)
  note A = declare_user_overwrites_or_appends [OF ok ok, where st = one_alice and mp = "''/mnt''"
      and name = "''Alice''" and ?s1.0 = "''s9''" and ?u1.0 = "''uuid-9''" and ?pw1.0 = "''new''"
      and ?b1.0 = "''B0''"]
  note B = declare_user_overwrites_or_appends [OF ok ok, where st = one_alice and mp = "''/mnt''"
      and name = "''Bob''" and ?s1.0 = "''s2''" and ?u1.0 = "''uuid-2''" and ?pw1.0 = "''pw2''"
      and ?b1.0 = "''B0''" and ?s2.0 = "''s3''" and ?u2.0 = "''uuid-3''" and ?pw2.0 = "''pw3''"
      and ?b2.0 = "''B0''"]
  note E = declare_user_overwrites_or_appends [OF ok ok, where st = empty_store and mp = "''/mnt''"
      and name = "''Bob''" and ?s1.0 = "''s2''" and ?u1.0 = "''uuid-2''" and ?pw1.0 = "''pw2''"
      and ?b1.0 = "''B0''"]
  have a: "declare_user toy_crypto ''s9'' ''uuid-9'' one_alice ''/mnt'' ''Alice'' ''new'' ''B0'' =
       (Inr (), one_alice\<lparr>json_files := (json_files one_alice)(blob0_path ''/mnt'' \<mapsto>
          [(''uuid-1'', slot_of ''Alice'' ''new'' ''s9'' ''B0'')])\<rparr>)"
    using A [THEN conjunct1, rule_format, of "[]" "''uuid-1''" "slot_of ''Alice'' ''pw1'' ''s1'' ''B0''" "[]"]
      alice
    by (simp add: slot_of_def toy_crypto_def)
  have b: "declare_user toy_crypto ''s2'' ''uuid-2'' one_alice ''/mnt'' ''Bob'' ''pw2'' ''B0'' =
       (Inr (), one_alice\<lparr>json_files := (json_files one_alice)(blob0_path ''/mnt'' \<mapsto>
          [(''uuid-1'', slot_of ''Alice'' ''pw1'' ''s1'' ''B0''),
           (''uuid-2'', slot_of ''Bob'' ''pw2'' ''s2'' ''B0'')])\<rparr>)"
    using B [THEN conjunct2, THEN conjunct1, rule_format,
        of "[(''uuid-1'', slot_of ''Alice'' ''pw1'' ''s1'' ''B0'')]"] alice
    by (simp add: slot_of_def toy_crypto_def)
  have e: "declare_user toy_crypto ''s2'' ''uuid-2'' empty_store ''/mnt'' ''Bob'' ''pw2'' ''B0'' =
       (Inr (), empty_store\<lparr>json_files := (json_files empty_store)(blob0_path ''/mnt'' \<mapsto>
          [(''uuid-2'', slot_of ''Bob'' ''pw2'' ''s2'' ''B0'')])\<rparr>)"
    using E [THEN conjunct2, THEN conjunct2, THEN conjunct1] none
    by (simp add: slot_of_def toy_crypto_def)
  have t: "\<exists>users2.
        json_files (snd (declare_user toy_crypto ''s3'' ''uuid-3''
            (snd (declare_user toy_crypto ''s2'' ''uuid-2'' one_alice ''/mnt'' ''Bob'' ''pw2'' ''B0''))
            ''/mnt'' ''Bob'' ''pw3'' ''B0'')) (blob0_path ''/mnt'') = Some users2
        \<and> filter (\<lambda>(u, d). cn d = ''Bob'') users2 = [(''uuid-2'', slot_of ''Bob'' ''pw3'' ''s3'' ''B0'')]"
    using B [THEN conjunct2, THEN conjunct2, THEN conjunct2] alice
    by (auto simp add: slot_of_def toy_crypto_def)
  show ?thesis using ok a b e t by simp
qed

subsection \<open>Changing a password\<close>









section \<open>Properties of the integrity fingerprint\<close>

text \<open>
  Claim C4. On the path \<^verbatim>\<open>boot/grub/bootparams.cfg\<close> (an existing file), \<^verbatim>\<open>_efi_ignore\<close> returns
  \<^verbatim>\<open>True\<close> exactly when both \<^verbatim>\<open>bootparams0.cfg\<close> and \<^verbatim>\<open>bootparams1.cfg\<close> exist below the root and
  the contents of the file equal the contents of one of them; in every other case (one of
  the two files missing, or the contents equal to neither) it returns the password drawn
  by \<^verbatim>\<open>cgen.generate_password()\<close>, never \<^verbatim>\<open>False\<close>.
\<close>

theorem efi_ignore_bootparams:
  assumes "fs (path_join root ''boot/grub/bootparams.cfg'') = Some contents"
  shows "efi_ignore c fs root ''boot/grub/bootparams.cfg'' =
           (if \<exists>c0 c1. fs (root @ ''/bootparams0.cfg'') = Some c0
                       \<and> fs (root @ ''/bootparams1.cfg'') = Some c1
                       \<and> (contents = c0 \<or> contents = c1)
            then Inr (PyBool True)
            else Inr (PyStr (generate_password c)))"
  using assms
  by (auto simp: efi_ignore_def load_file_contents_def path_exists_def Let_def
      split: option.splits)

theorem efi_ignore_bootparams_witness:
  "toy_disk (path_join ''/m/EFI'' ''boot/grub/bootparams.cfg'') = Some ''quiet''
   \<and> efi_ignore toy_crypto toy_disk ''/m/EFI'' ''boot/grub/bootparams.cfg'' = Inr (PyBool True)
   \<and> (toy_disk(''/m/EFI/boot/grub/bootparams.cfg'' \<mapsto> ''single''))
        (path_join ''/m/EFI'' ''boot/grub/bootparams.cfg'') = Some ''single''
   \<and> efi_ignore toy_crypto (toy_disk(''/m/EFI/boot/grub/bootparams.cfg'' \<mapsto> ''single''))
        ''/m/EFI'' ''boot/grub/bootparams.cfg'' = Inr (PyStr ''0Zk3xQ'')
   \<and> (toy_disk(''/m/EFI/bootparams1.cfg'' := None))
        (path_join ''/m/EFI'' ''boot/grub/bootparams.cfg'') = Some ''quiet''
   \<and> efi_ignore toy_crypto (toy_disk(''/m/EFI/bootparams1.cfg'' := None))
        ''/m/EFI'' ''boot/grub/bootparams.cfg'' = Inr (PyStr ''0Zk3xQ'')"
proof -
  have a: "toy_disk (path_join ''/m/EFI'' ''boot/grub/bootparams.cfg'') = Some ''quiet''"
    by (simp add: toy_disk_def path_join_def)
  have b: "(toy_disk(''/m/EFI/boot/grub/bootparams.cfg'' \<mapsto> ''single''))
        (path_join ''/m/EFI'' ''boot/grub/bootparams.cfg'') = Some ''single''"
    by (simp add: path_join_def)
  have c: "(toy_disk(''/m/EFI/bootparams1.cfg'' := None))
        (path_join ''/m/EFI'' ''boot/grub/bootparams.cfg'') = Some ''quiet''"
    by (simp add: toy_disk_def path_join_def)
  have n: "toy_disk (''/m/EFI'' @ ''/bootparams0.cfg'') = Some ''quiet''"
     "toy_disk (''/m/EFI'' @ ''/bootparams1.cfg'') = Some ''debug''"
    by (simp_all add: toy_disk_def)
  have g: "generate_password toy_crypto = ''0Zk3xQ''" by (simp add: toy_crypto_def)
  show ?thesis
    using a b c n g
      efi_ignore_bootparams [of toy_disk "''/m/EFI''" "''quiet''" toy_crypto]
      efi_ignore_bootparams [of "toy_disk(''/m/EFI/boot/grub/bootparams.cfg'' \<mapsto> ''single'')"
        "''/m/EFI''" "''single''" toy_crypto]
      efi_ignore_bootparams [of "toy_disk(''/m/EFI/bootparams1.cfg'' := None)"
        "''/m/EFI''" "''quiet''" toy_crypto]
    by simp
qed

text \<open>
  Claim C3. When every step succeeds, \<^verbatim>\<open>compute_integrity_fingerprint\<close> returns the hash chained
  in this order: the hash of the inter-partition data, then the blob1 private key, then
  the hash of the partition table for the label type of the layout, then the directory
  hash of \<^verbatim>\<open>dummy\<close> under \<^verbatim>\<open>_dummy_ignore\<close>, then the directory hash of \<^verbatim>\<open>EFI\<close> under
  \<^verbatim>\<open>_efi_ignore\<close>, then the hash of the live partition. The log is the log the device
  returned with the inter-partition hash, followed by one entry per chaining step holding
  the first five characters of the hash after that step, in the same order.
\<close>

theorem compute_integrity_fingerprint_chain:
  assumes inter: "inter_partitions_hash d = Inr (interhash, log0)"
    and layout: "partitions_layout_type d = Inr layout_type"
    and label: "LabelType h layout_type = Some ftype"
    and table: "compute_partitions_table_hash h (devfile d) ftype = Inr table_hash"
    and mount_dummy: "mount_error d partid_dummy = None"
    and dummy: "compute_directory_hash h fs (mountpoint d partid_dummy) (dummy_ignore fs) =
                  Inr dummy_hash"
    and mount_efi: "mount_error d partid_efi = None"
    and efi: "compute_directory_hash h fs (mountpoint d partid_efi) (efi_ignore c fs) =
                Inr efi_hash"
  shows "compute_integrity_fingerprint c h fs d blob1_priv live_hash =
           (let hash1 = chain_integity_hash h interhash blob1_priv;
                hash2 = chain_integity_hash h hash1 table_hash;
                hash3 = chain_integity_hash h hash2 dummy_hash;
                hash4 = chain_integity_hash h hash3 efi_hash;
                hash5 = chain_integity_hash h hash4 live_hash
            in (Inr (hash5,
                     log0 @ [(''blob1'', take 5 hash1), (''mbr'', take 5 hash2),
                             (''dummy'', take 5 hash3), (''efi-data'', take 5 hash4),
                             (''live'', take 5 hash5)]),
                d\<lparr>calls := calls d @ [Mount partid_dummy, Mount partid_efi]\<rparr>))"
  using assms
  by (simp add: compute_integrity_fingerprint_def mount_def Let_def)

lemma toy_dummy_hash:
  "compute_directory_hash toy_fphash toy_disk ''/m/dummy'' (dummy_ignore toy_disk) =
     Inr ''B0:KEY1;KEY1:kernel;PUB;''"
  by (simp add: toy_fphash_def toy_disk_def toy_ifp_def dummy_ignore_def getsize_def path_join_def)

lemma toy_efi_hash:
  "compute_directory_hash toy_fphash toy_disk ''/m/EFI'' (efi_ignore toy_crypto toy_disk) =
     Inr ''quiet;debug;''"
  by (simp add: toy_fphash_def toy_disk_def efi_ignore_def load_file_contents_def path_exists_def
      path_join_def)

theorem compute_integrity_fingerprint_chain_witness:
  "inter_partitions_hash toy_device = Inr (''1f3a9c'', [(''gaps'', ''1f3a9'')])
   \<and> partitions_layout_type toy_device = Inr ''gpt''
   \<and> LabelType toy_fphash ''gpt'' = Some ''gpt''
   \<and> compute_partitions_table_hash toy_fphash (devfile toy_device) ''gpt'' = Inr ''gpt:sdb''
   \<and> mount_error toy_device partid_dummy = None
   \<and> compute_directory_hash toy_fphash toy_disk (mountpoint toy_device partid_dummy)
        (dummy_ignore toy_disk) = Inr ''B0:KEY1;KEY1:kernel;PUB;''
   \<and> mount_error toy_device partid_efi = None
   \<and> compute_directory_hash toy_fphash toy_disk (mountpoint toy_device partid_efi)
        (efi_ignore toy_crypto toy_disk) = Inr ''quiet;debug;''
   \<and> compute_integrity_fingerprint toy_crypto toy_fphash toy_disk toy_device ''KEY1'' ''lenrek'' =
        (Inr (''lenrek/quiet;debug;/B0:KEY1;KEY1:kernel;PUB;/gpt:sdb/KEY1/1f3a9c'',
              [(''gaps'', ''1f3a9''), (''blob1'', ''KEY1/''), (''mbr'', ''gpt:s''),
               (''dummy'', ''B0:KE''), (''efi-data'', ''quiet''), (''live'', ''lenre'')]),
         toy_device\<lparr>calls := [Mount ''dummy'', Mount ''EFI'']\<rparr>)"
proof -
  have inter: "inter_partitions_hash toy_device = Inr (''1f3a9c'', [(''gaps'', ''1f3a9'')])"
    and layout: "partitions_layout_type toy_device = Inr ''gpt''"
    and label: "LabelType toy_fphash ''gpt'' = Some ''gpt''"
    and table: "compute_partitions_table_hash toy_fphash (devfile toy_device) ''gpt'' = Inr ''gpt:sdb''"
    and md: "mount_error toy_device partid_dummy = None"
    and me: "mount_error toy_device partid_efi = None"
    by (simp_all add: toy_device_def toy_fphash_def)
  have dh: "compute_directory_hash toy_fphash toy_disk (mountpoint toy_device partid_dummy)
        (dummy_ignore toy_disk) = Inr ''B0:KEY1;KEY1:kernel;PUB;''"
    using toy_dummy_hash by (simp add: toy_device_def partid_dummy_def)
  have eh: "compute_directory_hash toy_fphash toy_disk (mountpoint toy_device partid_efi)
        (efi_ignore toy_crypto toy_disk) = Inr ''quiet;debug;''"
    using toy_efi_hash by (simp add: toy_device_def partid_efi_def)
  have "compute_integrity_fingerprint toy_crypto toy_fphash toy_disk toy_device ''KEY1'' ''lenrek'' =
        (Inr (''lenrek/quiet;debug;/B0:KEY1;KEY1:kernel;PUB;/gpt:sdb/KEY1/1f3a9c'',
              [(''gaps'', ''1f3a9''), (''blob1'', ''KEY1/''), (''mbr'', ''gpt:s''),
               (''dummy'', ''B0:KE''), (''efi-data'', ''quiet''), (''live'', ''lenre'')]),
         toy_device\<lparr>calls := [Mount ''dummy'', Mount ''EFI'']\<rparr>)"
    using compute_integrity_fingerprint_chain [OF inter layout label table md dh me eh,
        of "''KEY1''" "''lenrek''"]
    by (simp add: toy_fphash_def toy_device_def partid_dummy_def partid_efi_def)
  then show ?thesis using inter layout label table md dh me eh by simp
qed

section \<open>Properties of the unlock\<close>

subsection \<open>A wrong password\<close>

lemma try_slot_fails:
  assumes "decrypt c (harden_password_for_blob0 c user_password (slot_salt entry)) (enc_blob entry) = None"
    and "decrypt c eobj0 (enc_blob entry) = None"
  shows "try_slot c user_password eobj0 entry = None"
  using assms by (auto simp: try_slot_def CryptoPassword_def Let_def split: option.splits)

lemma unlock_loop_exhausted:
  assumes "list_all (\<lambda>(slot, entry). try_slot c user_password eobj0 entry = None) blobs"
  shows "unlock_loop c k user_password eobj0 blobs w = (None, w)"
  using assms by (induction blobs) auto

lemma mounted_after_append:
  "mounted_after M (xs @ ys) = mounted_after (mounted_after M xs) ys"
  by (induction M xs rule: mounted_after.induct) simp_all

lemma mounts_of_append: "mounts_of (xs @ ys) = mounts_of xs @ mounts_of ys"
  by (induction xs rule: mounts_of.induct) simp_all

text \<open>
  Claim C6. On a locked device whose \<^verbatim>\<open>dummy\<close> partition mounts and verifies and whose
  \<^verbatim>\<open>blob0.json\<close> loads, when the password decrypts the \<^verbatim>\<open>enc-blob\<close> of no slot, neither hardened
  with the salt of the slot nor plain, \<^verbatim>\<open>unlock\<close> raises
  \<^verbatim>\<open>InvalidCredentialException("Invalid password")\<close>. The device has then seen exactly the calls
  mount \<^verbatim>\<open>dummy\<close>, verify, mount \<^verbatim>\<open>dummy\<close>, unmount \<^verbatim>\<open>dummy\<close>: no other partition was mounted, and
  \<^verbatim>\<open>dummy\<close> is not mounted when the call returns. Nothing else of the state has changed.
\<close>

theorem unlock_wrong_password:
  assumes locked: "\<not> unlocked w"
    and mount_ok: "mount_error (dev w) partid_dummy = None"
    and verify_ok: "verify_error (dev w) = None"
    and blob0_file: "load_file_contents (disk w) (blob0_path (mountpoint (dev w) partid_dummy)) = Inr text"
    and json: "json_loads_users k text = Some blobs"
    and wrong: "list_all (\<lambda>(slot, entry).
        decrypt c (harden_password_for_blob0 c user_password (slot_salt entry)) (enc_blob entry) = None
        \<and> decrypt c user_password (enc_blob entry) = None) blobs"
  shows "unlock c h k w user_password =
           (Inl (InvalidCredentialException ''Invalid password''),
            w\<lparr>dev := (dev w)\<lparr>calls := calls (dev w) @
                 [Mount partid_dummy, Verify, Mount partid_dummy, Umount partid_dummy]\<rparr>\<rparr>)
         \<and> mounts_of (calls (dev (snd (unlock c h k w user_password)))) =
             mounts_of (calls (dev w)) @ [partid_dummy, partid_dummy]
         \<and> mounted_after {} (calls (dev (snd (unlock c h k w user_password)))) =
             mounted_after {} (calls (dev w)) - {partid_dummy}"
proof -
  have "list_all (\<lambda>(slot, entry). try_slot c user_password user_password entry = None) blobs"
    using wrong unfolding list_all_iff by (auto intro: try_slot_fails)
  then have loop: "unlock_loop c k user_password user_password blobs w' = (None, w')" for w'
    by (rule unlock_loop_exhausted)
  have res: "unlock c h k w user_password =
           (Inl (InvalidCredentialException ''Invalid password''),
            w\<lparr>dev := (dev w)\<lparr>calls := calls (dev w) @
                 [Mount partid_dummy, Verify, Mount partid_dummy, Umount partid_dummy]\<rparr>\<rparr>)"
    using locked mount_ok verify_ok blob0_file json
    by (simp add: unlock_def mount_def verify_def unlock_blob0_def CryptoPassword_def loop
        umount_def)
  show ?thesis
    unfolding res by (simp add: mounted_after_append mounts_of_append)
qed



theorem unlock_wrong_password_witness:
  "\<not> unlocked toy_world
   \<and> mount_error (dev toy_world) partid_dummy = None
   \<and> verify_error (dev toy_world) = None
   \<and> load_file_contents (disk toy_world) (blob0_path (mountpoint (dev toy_world) partid_dummy)) =
        Inr ''{alice}''
   \<and> json_loads_users toy_collab ''{alice}'' = Some [(''uuid-1'', slot_of ''Alice'' ''pw1'' ''s1'' ''B0'')]
   \<and> list_all (\<lambda>(slot, entry).
        decrypt toy_crypto (harden_password_for_blob0 toy_crypto ''bad'' (slot_salt entry))
          (enc_blob entry) = None
        \<and> decrypt toy_crypto ''bad'' (enc_blob entry) = None)
        [(''uuid-1'', slot_of ''Alice'' ''pw1'' ''s1'' ''B0'')]
   \<and> unlock toy_crypto toy_fphash toy_collab toy_world ''bad'' =
        (Inl (InvalidCredentialException ''Invalid password''),
         toy_world\<lparr>dev := toy_device\<lparr>calls :=
            [Mount ''dummy'', Verify, Mount ''dummy'', Umount ''dummy'']\<rparr>\<rparr>)
   \<and> mounts_of (calls (dev (snd (unlock toy_crypto toy_fphash toy_collab toy_world ''bad'')))) =
        [''dummy'', ''dummy'']
   \<and> mounted_after {} (calls (dev (snd (unlock toy_crypto toy_fphash toy_collab toy_world ''bad'')))) = {}"
proof -
  have locked: "\<not> unlocked toy_world"
    and mount_ok: "mount_error (dev toy_world) partid_dummy = None"
    and verify_ok: "verify_error (dev toy_world) = None"
    and json: "json_loads_users toy_collab ''{alice}'' =
        Some [(''uuid-1'', slot_of ''Alice'' ''pw1'' ''s1'' ''B0'')]"
    by (simp_all add: toy_world_def toy_device_def toy_collab_def)
  have blob0_file: "load_file_contents (disk toy_world)
        (blob0_path (mountpoint (dev toy_world) partid_dummy)) = Inr ''{alice}''"
    by (simp add: toy_world_def toy_device_def toy_disk_def load_file_contents_def blob0_path_def
        partid_dummy_def)
  have wrong: "list_all (\<lambda>(slot, entry).
        decrypt toy_crypto (harden_password_for_blob0 toy_crypto ''bad'' (slot_salt entry))
          (enc_blob entry) = None
        \<and> decrypt toy_crypto ''bad'' (enc_blob entry) = None)
        [(''uuid-1'', slot_of ''Alice'' ''pw1'' ''s1'' ''B0'')]"
    by (simp add: toy_crypto_def slot_of_def slot_salt_def)
  show ?thesis
    using locked mount_ok verify_ok blob0_file json wrong
      unlock_wrong_password [OF locked mount_ok verify_ok blob0_file json wrong, of toy_fphash]
    by (simp add: toy_world_def toy_device_def partid_dummy_def)
qed


subsection \<open>Failures after authentication\<close>

lemmas toy_defs = toy_world_def toy_world_mount_failure_def toy_world_tampered_def toy_device_def
  toy_collab_def toy_crypto_def toy_fphash_def toy_disk_def toy_ifp_def slot_of_def toy_repr_def

lemmas unlock_defs = unlock_def unlock_blob0_def open_partitions_def unblock_with_blob0_def
  compute_integrity_fingerprint_def mount_def umount_def verify_def set_partition_secret_def
  CryptoPassword_def try_slot_def slot_salt_def load_file_contents_def getsize_def
  path_exists_def path_join_def blob0_path_def dummy_ignore_def efi_ignore_def
  partid_dummy_def partid_efi_def partid_live_def partid_internal_def partid_data_def

text \<open>
  Claim C2 says that a mount failure after authentication is surfaced with its own
  message. On the toy device whose \<^verbatim>\<open>internal\<close> partition fails to mount, the password
  \<open>pw1\<close> authenticates, and \<^verbatim>\<open>unlock\<close> raises
  \<^verbatim>\<open>DeviceIntegrityException("Device may be compromised")\<close>, not the exception of the mount.
\<close>

theorem unlock_mount_failure_is_integrity_error:
  "mount_error (dev toy_world_mount_failure) partid_internal = Some ''mount: wrong fs type''
   \<and> fst (unlock_blob0 toy_crypto toy_collab toy_world_mount_failure ''pw1'') = Inr ''B0''
   \<and> fst (unlock toy_crypto toy_fphash toy_collab toy_world_mount_failure ''pw1'') =
        Inl (DeviceIntegrityException ''Device may be compromised'')
   \<and> fst (unlock toy_crypto toy_fphash toy_collab toy_world_mount_failure ''pw1'') \<noteq>
        Inl (Exception ''mount: wrong fs type'')"
  by (simp add: toy_defs unlock_defs)

lemma unlock_after_authentication:
  assumes "\<not> unlocked w"
    and "mount (dev w) partid_dummy None = (Inr dmp, d)"
    and "verify d = (Inr (), d1)"
    and "unlock_blob0 c k (w\<lparr>dev := d1\<rparr>) user_password = (Inr blob0, w1)"
  shows "unlock c h k w user_password =
     (case open_partitions c h k w1 dmp blob0 of
        (Inl e, w2) \<Rightarrow>
          (Inl (DeviceIntegrityException ''Device may be compromised''),
           w2\<lparr>journal := journal w2 @ [''While unlocking device: '' @ str_exn (py_str k) e],
              dev := umount (dev w2) partid_dummy\<rparr>)
      | (Inr (int_password, data_password), w2) \<Rightarrow>
     (let w3 = w2\<lparr>dev := umount (dev w2) partid_dummy, unlocked := True\<rparr> in
      case chpasswd_error k of
        Some err \<Rightarrow>
          (Inl (Exception (''Could not change logged user's password: '' @ err)), w3)
      | None \<Rightarrow>
     (case post_start_error k of
        Some m \<Rightarrow>
          (Inl (Exception m), w3\<lparr>journal := journal w3 @ [''post-start failed: '' @ m]\<rparr>)
      | None \<Rightarrow> (Inr (blob0, int_password, data_password), w3))))"
  using assms by (simp add: unlock_def)

lemma open_partitions_mount_internal_fails:
  assumes "unblock_with_blob0 c h k w1 dmp blob0 = (Inr (eobj, int_password), w')"
    and "secret_error (dev w') partid_internal = None"
    and "mount_error (dev w') partid_internal = Some m"
  shows "open_partitions c h k w1 dmp blob0 =
     (Inl (Exception m),
      w'\<lparr>dev := (dev w')\<lparr>calls := calls (dev w') @ [SetSecret partid_internal int_password]\<rparr>\<rparr>)"
  using assms by (simp add: open_partitions_def set_partition_secret_def mount_def)

lemma open_partitions_data_pass_missing:
  assumes "unblock_with_blob0 c h k w1 dmp blob0 = (Inr (eobj, int_password), w')"
    and "secret_error (dev w') partid_internal = None"
    and "mount_error (dev w') partid_internal = None"
    and "disk w' ''/internal/credentials/data-pass.enc'' = None"
  shows "open_partitions c h k w1 dmp blob0 =
     (Inl (OSError ''/internal/credentials/data-pass.enc''),
      w'\<lparr>dev := (dev w')\<lparr>calls := calls (dev w') @
         [SetSecret partid_internal int_password, Mount partid_internal]\<rparr>\<rparr>)"
  using assms
  by (simp add: open_partitions_def set_partition_secret_def mount_def load_file_contents_def)

lemma open_partitions_mount_data_fails:
  assumes "unblock_with_blob0 c h k w1 dmp blob0 = (Inr (eobj, int_password), w')"
    and "secret_error (dev w') partid_internal = None"
    and "mount_error (dev w') partid_internal = None"
    and "disk w' ''/internal/credentials/data-pass.enc'' = Some data"
    and "decrypt c eobj data = Some data_password"
    and "secret_error (dev w') ''data'' = None"
    and "makedirs_error k = None"
    and "partition_filesystem (dev w') ''data'' = Inr fstype"
    and "mount_error (dev w') partid_data = Some m"
  shows "open_partitions c h k w1 dmp blob0 =
     (Inl (Exception m),
      w'\<lparr>dev := (dev w')\<lparr>calls := calls (dev w') @
         [SetSecret partid_internal int_password, Mount partid_internal,
          SetSecret ''data'' data_password]\<rparr>\<rparr>)"
  using assms
  by (simp add: open_partitions_def set_partition_secret_def mount_def load_file_contents_def)


text \<open>
  Claim C2, as the code has it. After authentication, every exception \<open>e\<close> raised inside the
  \<^verbatim>\<open>try\<close> block of \<^verbatim>\<open>unlock\<close> is replaced by
  \<^verbatim>\<open>DeviceIntegrityException("Device may be compromised")\<close>; the text \<^verbatim>\<open>str(e)\<close> goes to syslog
  only, and \<^verbatim>\<open>dummy\<close> is unmounted. This holds in particular when mounting the \<^verbatim>\<open>internal\<close>
  partition fails, when \<^verbatim>\<open>/internal/credentials/data-pass.enc\<close> cannot be read, and when
  mounting the \<^verbatim>\<open>data\<close> partition fails. Once the block has succeeded, a failure of
  \<^verbatim>\<open>chpasswd\<close> or of the steps after the unlock is raised with its own message.
\<close>

theorem unlock_failure_after_authentication:
  assumes locked: "\<not> unlocked w"
    and mounted_dummy: "mount (dev w) partid_dummy None = (Inr dmp, d)"
    and verified: "verify d = (Inr (), d1)"
    and authenticated: "unlock_blob0 c k (w\<lparr>dev := d1\<rparr>) user_password = (Inr blob0, w1)"
  shows
    "(\<forall>e w2. open_partitions c h k w1 dmp blob0 = (Inl e, w2) \<longrightarrow>
        unlock c h k w user_password =
          (Inl (DeviceIntegrityException ''Device may be compromised''),
           w2\<lparr>journal := journal w2 @ [''While unlocking device: '' @ str_exn (py_str k) e],
              dev := umount (dev w2) partid_dummy\<rparr>))
     \<and> (\<forall>eobj int_password w'.
          unblock_with_blob0 c h k w1 dmp blob0 = (Inr (eobj, int_password), w')
          \<and> secret_error (dev w') partid_internal = None \<longrightarrow>
          (\<forall>m. mount_error (dev w') partid_internal = Some m \<longrightarrow>
             fst (unlock c h k w user_password) =
               Inl (DeviceIntegrityException ''Device may be compromised'')
             \<and> journal (snd (unlock c h k w user_password)) =
                 journal w' @ [''While unlocking device: '' @ m])
          \<and> (mount_error (dev w') partid_internal = None
             \<and> disk w' ''/internal/credentials/data-pass.enc'' = None \<longrightarrow>
             fst (unlock c h k w user_password) =
               Inl (DeviceIntegrityException ''Device may be compromised'')
             \<and> journal (snd (unlock c h k w user_password)) =
                 journal w' @ [''While unlocking device: '' @
                               py_str k (OSError ''/internal/credentials/data-pass.enc'')])
          \<and> (\<forall>data data_password fstype m.
             mount_error (dev w') partid_internal = None
             \<and> disk w' ''/internal/credentials/data-pass.enc'' = Some data
             \<and> decrypt c eobj data = Some data_password
             \<and> secret_error (dev w') ''data'' = None
             \<and> makedirs_error k = None
             \<and> partition_filesystem (dev w') ''data'' = Inr fstype
             \<and> mount_error (dev w') partid_data = Some m \<longrightarrow>
             fst (unlock c h k w user_password) =
               Inl (DeviceIntegrityException ''Device may be compromised'')
             \<and> journal (snd (unlock c h k w user_password)) =
                 journal w' @ [''While unlocking device: '' @ m]))
     \<and> (\<forall>int_password data_password w2.
          open_partitions c h k w1 dmp blob0 = (Inr (int_password, data_password), w2) \<longrightarrow>
          fst (unlock c h k w user_password) =
            (case chpasswd_error k of
               Some err \<Rightarrow> Inl (Exception (''Could not change logged user's password: '' @ err))
             | None \<Rightarrow>
                 (case post_start_error k of
                    Some m \<Rightarrow> Inl (Exception m)
                  | None \<Rightarrow> Inr (blob0, int_password, data_password))))"
proof -
  note after = unlock_after_authentication [OF locked mounted_dummy verified authenticated, of h]
  have general: "unlock c h k w user_password =
          (Inl (DeviceIntegrityException ''Device may be compromised''),
           w2\<lparr>journal := journal w2 @ [''While unlocking device: '' @ str_exn (py_str k) e],
              dev := umount (dev w2) partid_dummy\<rparr>)"
    if "open_partitions c h k w1 dmp blob0 = (Inl e, w2)" for e w2
    using that by (simp add: after)
  have internal: "fst (unlock c h k w user_password) =
               Inl (DeviceIntegrityException ''Device may be compromised'')
             \<and> journal (snd (unlock c h k w user_password)) =
                 journal w' @ [''While unlocking device: '' @ m]"
    if "unblock_with_blob0 c h k w1 dmp blob0 = (Inr (eobj, int_password), w')"
      and "secret_error (dev w') partid_internal = None"
      and "mount_error (dev w') partid_internal = Some m"
    for eobj int_password w' m
    using general [OF open_partitions_mount_internal_fails [OF that]] by simp
  have data_pass: "fst (unlock c h k w user_password) =
               Inl (DeviceIntegrityException ''Device may be compromised'')
             \<and> journal (snd (unlock c h k w user_password)) =
                 journal w' @ [''While unlocking device: '' @
                               py_str k (OSError ''/internal/credentials/data-pass.enc'')]"
    if "unblock_with_blob0 c h k w1 dmp blob0 = (Inr (eobj, int_password), w')"
      and "secret_error (dev w') partid_internal = None"
      and "mount_error (dev w') partid_internal = None"
      and "disk w' ''/internal/credentials/data-pass.enc'' = None"
    for eobj int_password w'
    using general [OF open_partitions_data_pass_missing [OF that]] by simp
  have data: "fst (unlock c h k w user_password) =
               Inl (DeviceIntegrityException ''Device may be compromised'')
             \<and> journal (snd (unlock c h k w user_password)) =
                 journal w' @ [''While unlocking device: '' @ m]"
    if "unblock_with_blob0 c h k w1 dmp blob0 = (Inr (eobj, int_password), w')"
      and "secret_error (dev w') partid_internal = None"
      and "mount_error (dev w') partid_internal = None"
      and "disk w' ''/internal/credentials/data-pass.enc'' = Some data"
      and "decrypt c eobj data = Some data_password"
      and "secret_error (dev w') ''data'' = None"
      and "makedirs_error k = None"
      and "partition_filesystem (dev w') ''data'' = Inr fstype"
      and "mount_error (dev w') partid_data = Some m"
    for eobj int_password w' data data_password fstype m
    using general [OF open_partitions_mount_data_fails [OF that]] by simp
  have later: "fst (unlock c h k w user_password) =
            (case chpasswd_error k of
               Some err \<Rightarrow> Inl (Exception (''Could not change logged user's password: '' @ err))
             | None \<Rightarrow>
                 (case post_start_error k of
                    Some m \<Rightarrow> Inl (Exception m)
                  | None \<Rightarrow> Inr (blob0, int_password, data_password)))"
    if "open_partitions c h k w1 dmp blob0 = (Inr (int_password, data_password), w2)"
    for int_password data_password w2
    using that by (simp add: after Let_def split: option.splits)
  show ?thesis
    using general internal data_pass data later by blast
qed


theorem unlock_failure_after_authentication_witness:
  "\<not> unlocked toy_world_mount_failure
   \<and> fst (mount (dev toy_world_mount_failure) partid_dummy None) = Inr ''/m/dummy''
   \<and> fst (verify (snd (mount (dev toy_world_mount_failure) partid_dummy None))) = Inr ()
   \<and> fst (unlock_blob0 toy_crypto toy_collab
        (toy_world_mount_failure\<lparr>dev :=
           snd (verify (snd (mount (dev toy_world_mount_failure) partid_dummy None)))\<rparr>) ''pw1'') =
       Inr ''B0''
   \<and> mount_error (dev toy_world_mount_failure) partid_internal = Some ''mount: wrong fs type''
   \<and> fst (unlock toy_crypto toy_fphash toy_collab toy_world_mount_failure ''pw1'') =
        Inl (DeviceIntegrityException ''Device may be compromised'')
   \<and> journal (snd (unlock toy_crypto toy_fphash toy_collab toy_world_mount_failure ''pw1'')) =
        [''While unlocking device: mount: wrong fs type'']
   \<and> \<not> unlocked toy_world_tampered
   \<and> fst (unlock_blob0 toy_crypto toy_collab
        (toy_world_tampered\<lparr>dev :=
           snd (verify (snd (mount (dev toy_world_tampered) partid_dummy None)))\<rparr>) ''pw1'') =
       Inr ''B0''
   \<and> fst (unlock toy_crypto toy_fphash toy_collab toy_world_tampered ''pw1'') =
        Inl (DeviceIntegrityException ''Device may be compromised'')
   \<and> journal (snd (unlock toy_crypto toy_fphash toy_collab toy_world_tampered ''pw1'')) =
        [''While unlocking device: ('Could not verify files in the live partition (vmlinuz: chunk mismatch)', None)'']"
proof -
  let ?W = toy_world_mount_failure
  let ?d = "snd (mount (dev ?W) partid_dummy None)"
  let ?d1 = "snd (verify ?d)"
  let ?w1 = "snd (unlock_blob0 toy_crypto toy_collab (?W\<lparr>dev := ?d1\<rparr>) ''pw1'')"
  let ?w' = "snd (unblock_with_blob0 toy_crypto toy_fphash toy_collab ?w1 ''/m/dummy'' ''B0'')"
  have locked: "\<not> unlocked ?W" by (simp add: toy_defs)
  have m1: "fst (mount (dev ?W) partid_dummy None) = Inr ''/m/dummy''"
    by (simp add: toy_defs mount_def partid_dummy_def)
  have v1: "fst (verify ?d) = Inr ()"
    by (simp add: toy_defs mount_def verify_def partid_dummy_def)
  have a1: "fst (unlock_blob0 toy_crypto toy_collab (?W\<lparr>dev := ?d1\<rparr>) ''pw1'') = Inr ''B0''"
    by (simp add: toy_defs unlock_defs)
  have u1: "fst (unblock_with_blob0 toy_crypto toy_fphash toy_collab ?w1 ''/m/dummy'' ''B0'') =
      Inr (toy_ifp, ''ipw'')"
    by (simp add: toy_defs unlock_defs)
  have s1: "secret_error (dev ?w') partid_internal = None"
    by (simp add: toy_defs unlock_defs)
  have e1: "mount_error (dev ?w') partid_internal = Some ''mount: wrong fs type''"
    by (simp add: toy_defs unlock_defs)
  have j1: "journal ?w' = []"
    by (simp add: toy_defs unlock_defs)
  have e0: "mount_error (dev ?W) partid_internal = Some ''mount: wrong fs type''"
    by (simp add: toy_defs partid_internal_def)
  have mounted_dummy: "mount (dev ?W) partid_dummy None = (Inr ''/m/dummy'', ?d)"
    using m1 by (simp add: prod_eq_iff)
  have verified: "verify ?d = (Inr (), ?d1)"
    using v1 by (simp add: prod_eq_iff)
  have authenticated: "unlock_blob0 toy_crypto toy_collab (?W\<lparr>dev := ?d1\<rparr>) ''pw1'' = (Inr ''B0'', ?w1)"
    using a1 by (simp add: prod_eq_iff)
  have unblocked: "unblock_with_blob0 toy_crypto toy_fphash toy_collab ?w1 ''/m/dummy'' ''B0'' =
      (Inr (toy_ifp, ''ipw''), ?w')"
    using u1 by (simp add: prod_eq_iff)
  have first: "fst (unlock toy_crypto toy_fphash toy_collab ?W ''pw1'') =
          Inl (DeviceIntegrityException ''Device may be compromised'')
        \<and> journal (snd (unlock toy_crypto toy_fphash toy_collab ?W ''pw1'')) =
          journal ?w' @ [''While unlocking device: '' @ ''mount: wrong fs type'']"
    using unlock_failure_after_authentication [OF locked mounted_dummy verified authenticated,
        of toy_fphash, THEN conjunct2, THEN conjunct1, rule_format, of toy_ifp "''ipw''" ?w',
        THEN conjunct1, rule_format, of "''mount: wrong fs type''"]
      unblocked s1 e1
    by blast
  let ?T = toy_world_tampered
  let ?td = "snd (mount (dev ?T) partid_dummy None)"
  let ?td1 = "snd (verify ?td)"
  let ?tw1 = "snd (unlock_blob0 toy_crypto toy_collab (?T\<lparr>dev := ?td1\<rparr>) ''pw1'')"
  let ?tw2 = "snd (open_partitions toy_crypto toy_fphash toy_collab ?tw1 ''/m/dummy'' ''B0'')"
  let ?e = "ExceptionArgs
      ''Could not verify files in the live partition (vmlinuz: chunk mismatch)'' None"
  have tlocked: "\<not> unlocked ?T" by (simp add: toy_defs)
  have tm: "mount (dev ?T) partid_dummy None = (Inr ''/m/dummy'', ?td)"
    by (simp add: toy_defs mount_def partid_dummy_def prod_eq_iff)
  have tv: "verify ?td = (Inr (), ?td1)"
    by (simp add: toy_defs mount_def verify_def partid_dummy_def prod_eq_iff)
  have ta1: "fst (unlock_blob0 toy_crypto toy_collab (?T\<lparr>dev := ?td1\<rparr>) ''pw1'') = Inr ''B0''"
    by (simp add: toy_defs unlock_defs)
  then have ta: "unlock_blob0 toy_crypto toy_collab (?T\<lparr>dev := ?td1\<rparr>) ''pw1'' = (Inr ''B0'', ?tw1)"
    by (simp add: prod_eq_iff)
  have to1: "fst (open_partitions toy_crypto toy_fphash toy_collab ?tw1 ''/m/dummy'' ''B0'') = Inl ?e"
    by (simp add: toy_defs unlock_defs)
  then have topen: "open_partitions toy_crypto toy_fphash toy_collab ?tw1 ''/m/dummy'' ''B0'' =
      (Inl ?e, ?tw2)"
    by (simp add: prod_eq_iff)
  have tj: "journal ?tw2 = []"
    by (simp add: toy_defs unlock_defs)
  have ts: "str_exn (py_str toy_collab) ?e =
      ''('Could not verify files in the live partition (vmlinuz: chunk mismatch)', None)''"
    by (simp add: toy_collab_def toy_repr_def)
  have second: "fst (unlock toy_crypto toy_fphash toy_collab ?T ''pw1'') =
          Inl (DeviceIntegrityException ''Device may be compromised'')
        \<and> journal (snd (unlock toy_crypto toy_fphash toy_collab ?T ''pw1'')) =
          [''While unlocking device: ('Could not verify files in the live partition (vmlinuz: chunk mismatch)', None)'']"
    using unlock_failure_after_authentication [OF tlocked tm tv ta,
        of toy_fphash, THEN conjunct1, rule_format, OF topen] tj ts
    by simp
  show ?thesis
    using locked m1 v1 a1 e0 j1 first tlocked ta1 second by simp
qed

section \<open>Properties of the sealed archive\<close>

lemma tar_add_names:
  "\<forall>m \<in> set (tar_add arcname n). \<exists>s. fst m = arcname @ s"
  "\<forall>m \<in> set (tar_add_entries arcname entries). \<exists>s. fst m = arcname @ ''/'' @ s"
  by (induction arcname n and arcname entries rule: tar_add_tar_add_entries.induct) auto

lemma tar_add_entries_nested:
  "m \<in> set (tar_add_entries arcname entries) \<Longrightarrow> CHR ''/'' \<in> set (fst m)"
  using tar_add_names(2) [of arcname entries] by auto

lemma tar_add_top_level:
  assumes "CHR ''/'' \<notin> set entry"
  shows "map fst (filter top_level (tar_add entry n)) = [entry]"
proof (cases n)
  case (File st contents)
  then show ?thesis using assms by simp
next
  case (Dir st entries)
  have "filter top_level (tar_add_entries entry entries) = []"
    unfolding filter_empty_conv using tar_add_entries_nested [of _ entry entries] by auto
  then show ?thesis using Dir assms by simp
qed

lemma privdata_archive_top_level:
  assumes "list_all (\<lambda>(entry, n). CHR ''/'' \<notin> set entry) resources"
  shows "map fst (filter top_level (privdata_archive resources)) =
           map fst resources"
  using assms
proof (induction resources)
  case Nil
  then show ?case by simp
next
  case (Cons r resources)
  obtain entry n where r: "r = (entry, n)" by (cases r)
  from Cons.prems r have "CHR ''/'' \<notin> set entry" by simp
  from tar_add_top_level [OF this, of n] Cons r show ?case by simp
qed

lemma tar_add_forget:
  "map member_content (tar_add arcname (forget n)) = map member_content (tar_add arcname n)"
  "map member_content (tar_add_entries arcname (forget_entries entries)) =
     map member_content (tar_add_entries arcname entries)"
  by (induction arcname n and arcname entries rule: tar_add_tar_add_entries.induct) simp_all

lemma privdata_archive_contents:
  "set (map member_content (privdata_archive resources)) =
     (\<Union>(entry, n) \<in> inputs_of resources. set (map member_content (tar_add entry n)))"
proof (induction resources)
  case Nil
  then show ?case by simp
next
  case (Cons r resources)
  obtain entry n where r: "r = (entry, n)" by (cases r)
  have "member_content ` set (tar_add entry (forget n)) = member_content ` set (tar_add entry n)"
    using tar_add_forget(1) [of entry n] by (metis set_map)
  then show ?case using Cons.IH r by simp
qed

lemma inputs_of_empty: "inputs_of resources = {} \<longleftrightarrow> resources = []"
  by (cases resources) auto


text \<open>
  Claim C5 says that two builds from the same inputs give the same \<^verbatim>\<open>privdata.tar\<close>, with its
  entries in lexicographic order. The loop adds the entries in the order of
  \<^verbatim>\<open>os.listdir\<close>, which is not sorted: two listings of the same directory give two different
  archives, and the one that starts with \<open>beta\<close> is not in lexicographic order. With the
  same listing order, two builds that wrote the same files at different times give two
  different archives as well, since each member records the metadata of its file.
\<close>

theorem privdata_archive_order_counterexample:
  "inputs_of privdata_ab = inputs_of privdata_ba
   \<and> privdata_tar (snd (encrypt_privdata toy_seal (Some ''PK'') True (toy_build privdata_ab)))
       \<noteq> privdata_tar (snd (encrypt_privdata toy_seal (Some ''PK'') True (toy_build privdata_ba)))
   \<and> map fst (the (privdata_tar
         (snd (encrypt_privdata toy_seal (Some ''PK'') True (toy_build privdata_ba))))) =
       [''beta'', ''alpha'', ''alpha/key.pem'']
   \<and> \<not> sorted [''beta'', ''alpha'', ''alpha/key.pem'']
   \<and> inputs_of privdata_ab = inputs_of privdata_ab_later
   \<and> privdata_tar (snd (encrypt_privdata toy_seal (Some ''PK'') True (toy_build privdata_ab)))
       \<noteq> privdata_tar (snd (encrypt_privdata toy_seal (Some ''PK'') True (toy_build privdata_ab_later)))"
  by (auto simp add: privdata_ab_def privdata_ba_def privdata_ab_later_def encrypt_privdata_def
      toy_build_def stat_at_def)

text \<open>
  Claim C5, as the code has it. For a non-empty \<^verbatim>\<open>privdata/\<close> and a given public key,
  \<^verbatim>\<open>_encrypt_privdata\<close> writes an archive, which is what it encrypts; the top-level members of
  the archive are the entries of \<^verbatim>\<open>privdata/\<close> in the order in which \<^verbatim>\<open>os.listdir\<close> returned
  them; and a build on the same names and contents, whatever its listing order and the
  metadata of its files, writes an archive whose members have the same names and contents.
\<close>

theorem privdata_archive_follows_listing:
  assumes names: "list_all (\<lambda>(entry, n). CHR ''/'' \<notin> set entry) resources"
    and dir: "privdata_dir b = Some resources"
    and nonempty: "resources \<noteq> []"
  shows
    "\<exists>tar. privdata_tar (snd (encrypt_privdata x509_encrypt (Some pubkey) True b)) = Some tar
       \<and> privdata_tar_enc (snd (encrypt_privdata x509_encrypt (Some pubkey) dry_mode b)) =
           Some (x509_encrypt pubkey tar)
       \<and> map fst (filter top_level tar) = map fst resources
       \<and> (\<forall>b' resources'.
            privdata_dir b' = Some resources' \<and> inputs_of resources' = inputs_of resources \<longrightarrow>
            (\<exists>tar'. privdata_tar (snd (encrypt_privdata x509_encrypt (Some pubkey) True b')) =
                      Some tar'
                  \<and> set (map member_content tar') = set (map member_content tar)))"
proof -
  have written: "privdata_tar (snd (encrypt_privdata x509_encrypt (Some pubkey) True b)) =
      Some (privdata_archive resources)"
    using dir nonempty by (simp add: encrypt_privdata_def)
  have sealed: "privdata_tar_enc (snd (encrypt_privdata x509_encrypt (Some pubkey) dry_mode b)) =
      Some (x509_encrypt pubkey (privdata_archive resources))"
    using dir nonempty by (simp add: encrypt_privdata_def Let_def)
  have order: "map fst (filter top_level (privdata_archive resources)) = map fst resources"
    by (rule privdata_archive_top_level [OF names])
  have other: "\<exists>tar'. privdata_tar (snd (encrypt_privdata x509_encrypt (Some pubkey) True b')) =
        Some tar'
      \<and> set (map member_content tar') = set (map member_content (privdata_archive resources))"
    if h: "privdata_dir b' = Some resources' \<and> inputs_of resources' = inputs_of resources"
    for b' :: build_fs and resources'
  proof -
    have "resources' \<noteq> []"
      using h nonempty inputs_of_empty [of resources'] inputs_of_empty [of resources] by simp
    with h have "privdata_tar (snd (encrypt_privdata x509_encrypt (Some pubkey) True b')) =
        Some (privdata_archive resources')"
      by (simp add: encrypt_privdata_def)
    moreover have "set (map member_content (privdata_archive resources')) =
        set (map member_content (privdata_archive resources))"
      using h by (simp only: privdata_archive_contents)
    ultimately show ?thesis by blast
  qed
  show ?thesis
    using written sealed order other by blast
qed

theorem privdata_archive_follows_listing_witness:
  "list_all (\<lambda>(entry, n). CHR ''/'' \<notin> set entry) privdata_ba
   \<and> privdata_dir (toy_build privdata_ba) = Some privdata_ba
   \<and> privdata_ba \<noteq> []
   \<and> privdata_dir (toy_build privdata_ab_later) = Some privdata_ab_later
   \<and> inputs_of privdata_ab_later = inputs_of privdata_ba
   \<and> map fst (filter top_level (privdata_archive privdata_ba)) = [''beta'', ''alpha'']
   \<and> set (map member_content (privdata_archive privdata_ab_later)) =
       set (map member_content (privdata_archive privdata_ba))"
proof -
  have names: "list_all (\<lambda>(entry, n). CHR ''/'' \<notin> set entry) privdata_ba"
    by (simp add: privdata_ba_def)
  have dir: "privdata_dir (toy_build privdata_ba) = Some privdata_ba"
    and dir': "privdata_dir (toy_build privdata_ab_later) = Some privdata_ab_later"
    by (simp_all add: toy_build_def)
  have nonempty: "privdata_ba \<noteq> []" by (simp add: privdata_ba_def)
  have same: "inputs_of privdata_ab_later = inputs_of privdata_ba"
    by (auto simp add: privdata_ab_later_def privdata_ba_def)
  have tar_ba: "privdata_tar (snd (encrypt_privdata toy_seal (Some ''PK'') True
      (toy_build privdata_ba))) = Some (privdata_archive privdata_ba)"
    by (simp add: encrypt_privdata_def toy_build_def privdata_ba_def)
  have tar_ab: "privdata_tar (snd (encrypt_privdata toy_seal (Some ''PK'') True
      (toy_build privdata_ab_later))) = Some (privdata_archive privdata_ab_later)"
    by (simp add: encrypt_privdata_def toy_build_def privdata_ab_later_def)
  from privdata_archive_follows_listing [OF names dir nonempty, of toy_seal "''PK''" True]
  obtain tar where
    t: "privdata_tar (snd (encrypt_privdata toy_seal (Some ''PK'') True (toy_build privdata_ba))) =
          Some tar"
    and top: "map fst (filter top_level tar) = map fst privdata_ba"
    and others: "\<forall>b' resources'.
        privdata_dir b' = Some resources' \<and> inputs_of resources' = inputs_of privdata_ba \<longrightarrow>
        (\<exists>tar'. privdata_tar (snd (encrypt_privdata toy_seal (Some ''PK'') True b')) = Some tar'
              \<and> set (map member_content tar') = set (map member_content tar))"
    by blast
  have tar: "tar = privdata_archive privdata_ba" using t tar_ba by simp
  from others dir' same obtain tar' where
    t': "privdata_tar (snd (encrypt_privdata toy_seal (Some ''PK'') True
          (toy_build privdata_ab_later))) = Some tar'"
    and c: "set (map member_content tar') = set (map member_content tar)"
    by blast
  have tar': "tar' = privdata_archive privdata_ab_later" using t' tar_ab by simp
  have a: "map fst (filter top_level (privdata_archive privdata_ba)) = [''beta'', ''alpha'']"
    using top tar by (simp add: privdata_ba_def)
  have b: "set (map member_content (privdata_archive privdata_ab_later)) =
       set (map member_content (privdata_archive privdata_ba))"
    using c tar tar' by simp
  show ?thesis using names dir nonempty dir' same a b by simp
qed

end
